theory Spec2Isabelle
  imports Complex_Main "HOL-Library.AList" "HOL-Library.Product_Lexorder" "HOL-Library.Option_ord"
begin

section \<open>Numbers and errors\<close>

text \<open>
  The program is Python. Its \<open>float\<close> values are modelled by the type \<open>real\<close>: every
  arithmetic operation is the exact one, and the special values (NaN, the infinities, the
  signed zero) and rounding are outside the model. The literals \<open>1e-12\<close> and \<open>1e-5\<close> are
  the reals \<open>1 / 10 ^ 12\<close> and \<open>1 / 10 ^ 5\<close>. The conversions \<open>float(val)\<close> of a value
  that is a number already are the identity.

  Every exception the code raises is a value of \<open>error\<close>. All of the repository's own
  \<open>raise\<close> statements raise \<open>ValueError\<close>; they differ in the message, which is kept as
  a constructor of \<open>message\<close>:
  \<^item> \<open>SameLength\<close>: "age_lower, age_upper, and mx must have the same length"
  \<^item> \<open>AtLeastTwo\<close>: "Life tables require at least two age groups"
  \<^item> \<open>UpperMustExceed i\<close>: "age_upper must exceed age_lower at row i"
  \<^item> \<open>AxSameLength\<close>: "ax must have the same length as the age vectors"
  \<^item> \<open>OnlyFinalOpen\<close>: "Only the final age group may be open-ended"
  \<^item> \<open>NonNegative\<close>: "Mortality rates must be non-negative"
  \<^item> \<open>BaselineComparisonLength\<close>: "baseline_mx and comparison_mx must have the same length"
  \<^item> \<open>NoCohortRows\<close>: "No rows found for the specified race/sex cohort"
  \<^item> \<open>BothCounties\<close>: "Both counties must have data for the specified cohort"
  \<^item> \<open>NoOverlap\<close>: "No overlapping age groups available for decomposition"
  \<^item> \<open>NotAFloat s\<close>: the message of \<open>float(s)\<close> on a string that is not a number.

  \<open>KeyError\<close>, \<open>TypeError\<close> and \<open>IndexError\<close> are the exceptions of the language itself:
  a missing dictionary key, \<open>float(None)\<close> or an order comparison of \<open>None\<close> with a
  number, and an index out of range.
\<close>

datatype message =
    SameLength
  | AtLeastTwo
  | UpperMustExceed nat
  | AxSameLength
  | OnlyFinalOpen
  | NonNegative
  | BaselineComparisonLength
  | NoCohortRows
  | BothCounties
  | NoOverlap
  | NotAFloat string

datatype error = ValueError message | KeyError | TypeError | IndexError

section \<open>Life tables (life_table.py)\<close>

record LifeTable =
  age_lower :: "real list"
  age_upper :: "real option list"
  n :: "real option list"
  mx :: "real list"
  ax :: "real list"
  qx :: "real list"
  px :: "real list"
  lx :: "real list"
  dx :: "real list"
  Lx :: "real list"
  Tx :: "real list"
  ex :: "real list"

record LifeTableInput =
  age_lower :: "real list"
  age_upper :: "real option list"
  mx :: "real list"
  ax :: "real list option"
  radix :: real

text \<open>The default of the field \<open>radix\<close>.\<close>

definition default_radix :: real where
  "default_radix = 100000"

subsection \<open>\<open>_validate_inputs\<close>\<close>

text \<open>
  The loop \<open>for i, (low, high) in enumerate(zip(age_lower, age_upper))\<close>: the first row
  whose upper bound is defined and does not exceed the lower bound raises.
\<close>

fun check_bounds :: "nat \<Rightarrow> (real \<times> real option) list \<Rightarrow> error + unit" where
  "check_bounds i [] = Inr ()"
| "check_bounds i ((low, high) # rows) =
     (case high of
        Some h \<Rightarrow> if h \<le> low then Inl (ValueError (UpperMustExceed i))
                  else check_bounds (Suc i) rows
      | None \<Rightarrow> check_bounds (Suc i) rows)"

definition validate_inputs :: "LifeTableInput \<Rightarrow> error + unit" where
  "validate_inputs data =
     (let age_lower = LifeTableInput.age_lower data;
          age_upper = LifeTableInput.age_upper data;
          mx = LifeTableInput.mx data
      in if \<not> (length age_lower = length age_upper \<and> length age_upper = length mx)
         then Inl (ValueError SameLength)
         else if length age_lower < 2 then Inl (ValueError AtLeastTwo)
         else case check_bounds 0 (zip age_lower age_upper) of
           Inl e \<Rightarrow> Inl e
         | Inr _ \<Rightarrow>
             (case LifeTableInput.ax data of
                Some ax_list \<Rightarrow>
                  if length ax_list \<noteq> length age_lower then Inl (ValueError AxSameLength)
                  else if list_ex (\<lambda>high. high = None) (butlast age_upper)
                  then Inl (ValueError OnlyFinalOpen) else Inr ()
              | None \<Rightarrow>
                  if list_ex (\<lambda>high. high = None) (butlast age_upper)
                  then Inl (ValueError OnlyFinalOpen) else Inr ()))"

subsection \<open>\<open>_compute_ax\<close>\<close>

definition compute_ax :: "real list \<Rightarrow> real option list \<Rightarrow> real list \<Rightarrow> real list" where
  "compute_ax age_lower' age_upper' mx' =
     map (\<lambda>(low, high, rate).
            case high of
              None \<Rightarrow> 1 / max rate (1 / 10 ^ 12)
            | Some h \<Rightarrow> (h - low) / 2)
         (zip age_lower' (zip age_upper' mx'))"

subsection \<open>\<open>build_life_table\<close>\<close>

text \<open>The column \<open>n\<close>: the width of a closed interval, \<open>None\<close> for an open one.\<close>

definition n_col :: "real list \<Rightarrow> real option list \<Rightarrow> real option list" where
  "n_col age_lower' age_upper' =
     map (\<lambda>(low, high). case high of None \<Rightarrow> None | Some h \<Rightarrow> Some (h - low))
         (zip age_lower' age_upper')"

text \<open>One pass of the loop that fills \<open>qx\<close>.\<close>

definition qx_value :: "real option \<Rightarrow> real \<Rightarrow> real \<Rightarrow> real" where
  "qx_value width rate a =
     (case width of
        None \<Rightarrow> 1
      | Some w \<Rightarrow>
          (let numerator = w * rate;
               denominator = 1 + (w - a) * rate;
               value = (if denominator \<noteq> 0 then numerator / denominator else 1)
           in max 0 (min 1 value)))"

definition qx_col :: "real option list \<Rightarrow> real list \<Rightarrow> real list \<Rightarrow> real list" where
  "qx_col n' mx' ax' =
     map (\<lambda>(width, rate, a). qx_value width rate a) (zip n' (zip mx' ax'))"

text \<open>
  The loop \<open>for prob in px[:-1]: lx.append(lx[-1] * prob)\<close>, started from \<open>[radix]\<close>.
\<close>

primrec lx_loop :: "real list \<Rightarrow> real list \<Rightarrow> real list" where
  "lx_loop lx' [] = lx'"
| "lx_loop lx' (prob # probs) = lx_loop (lx' @ [last lx' * prob]) probs"

definition Lx_value :: "real option \<Rightarrow> real \<Rightarrow> real \<Rightarrow> real \<Rightarrow> real \<Rightarrow> real" where
  "Lx_value width l_val d_val a rate =
     (case width of
        None \<Rightarrow> l_val / max rate (1 / 10 ^ 12)
      | Some w \<Rightarrow> w * (l_val - d_val) + a * d_val)"

definition Lx_col ::
  "real option list \<Rightarrow> real list \<Rightarrow> real list \<Rightarrow> real list \<Rightarrow> real list \<Rightarrow> real list" where
  "Lx_col n' lx' dx' ax' mx' =
     map (\<lambda>(width, l_val, d_val, a, rate). Lx_value width l_val d_val a rate)
         (zip n' (zip lx' (zip dx' (zip ax' mx'))))"

text \<open>
  \<open>Tx = [0.0] * len(Lx); Tx[-1] = Lx[-1]\<close>, then the loop
  \<open>for i in range(len(Lx) - 2, -1, -1): Tx[i] = Tx[i + 1] + Lx[i]\<close>.
  \<open>Lx[-1]\<close> on an empty list raises \<open>IndexError\<close>.
\<close>

primrec Tx_loop :: "real list \<Rightarrow> nat list \<Rightarrow> real list \<Rightarrow> real list" where
  "Tx_loop Lx' [] Tx' = Tx'"
| "Tx_loop Lx' (i # is) Tx' = Tx_loop Lx' is (Tx'[i := Tx' ! (i + 1) + Lx' ! i])"

definition Tx_col :: "real list \<Rightarrow> error + real list" where
  "Tx_col Lx' =
     (if Lx' = [] then Inl IndexError
      else Inr (Tx_loop Lx' (rev [0..<length Lx' - 1])
                  ((replicate (length Lx') 0)[length Lx' - 1 := last Lx'])))"

definition ex_col :: "real list \<Rightarrow> real list \<Rightarrow> real list" where
  "ex_col Tx' lx' = map (\<lambda>(t, l). if l \<noteq> 0 then t / l else 0) (zip Tx' lx')"

definition build_life_table :: "LifeTableInput \<Rightarrow> error + LifeTable" where
  "build_life_table data =
     (case validate_inputs data of
        Inl e \<Rightarrow> Inl e
      | Inr _ \<Rightarrow>
          (let age_lower = LifeTableInput.age_lower data;
               age_upper = LifeTableInput.age_upper data;
               mx = LifeTableInput.mx data
           in if list_ex (\<lambda>rate. rate < 0) mx then Inl (ValueError NonNegative)
              else
                (let ax = (case LifeTableInput.ax data of
                             Some ax_list \<Rightarrow> ax_list
                           | None \<Rightarrow> compute_ax age_lower age_upper mx);
                     n = n_col age_lower age_upper;
                     qx = qx_col n mx ax;
                     px = map (\<lambda>value. 1 - value) qx;
                     lx = lx_loop [LifeTableInput.radix data] (butlast px);
                     dx = map (\<lambda>(l, q). l * q) (zip lx qx);
                     Lx = Lx_col n lx dx ax mx
                 in case Tx_col Lx of
                      Inl e \<Rightarrow> Inl e
                    | Inr Tx' \<Rightarrow>
                        Inr \<lparr>LifeTable.age_lower = age_lower, age_upper = age_upper,
                             n = n, mx = mx, ax = ax, qx = qx, px = px, lx = lx, dx = dx,
                             Lx = Lx, Tx = Tx', ex = ex_col Tx' lx\<rparr>)))"

section \<open>Decomposition (decomposition.py)\<close>

record DecompositionResult =
  age_lower :: "real list"
  age_upper :: "real option list"
  contribution :: "real list"

subsection \<open>\<open>_life_expectancy_from_mx\<close>\<close>

text \<open>
  The input is built without a radix, so the default applies. \<open>table.ex[0]\<close> raises
  \<open>IndexError\<close> on an empty column.
\<close>

definition life_expectancy_from_mx ::
  "real list \<Rightarrow> real list \<Rightarrow> real option list \<Rightarrow> real list option \<Rightarrow> error + real" where
  "life_expectancy_from_mx mx' age_lower' age_upper' ax' =
     (case build_life_table
             \<lparr>LifeTableInput.age_lower = age_lower', age_upper = age_upper', mx = mx',
              ax = ax', radix = default_radix\<rparr> of
        Inl e \<Rightarrow> Inl e
      | Inr table \<Rightarrow> (case ex table of [] \<Rightarrow> Inl IndexError | e0 # _ \<Rightarrow> Inr e0))"

subsection \<open>\<open>_numeric_gradient\<close>\<close>

text \<open>The default of the parameter \<open>step\<close>, \<open>1e-5\<close>.\<close>

definition gradient_step :: real where
  "gradient_step = 1 / 10 ^ 5"

text \<open>
  The loop \<open>for idx in range(len(mx))\<close>. The copy \<open>perturbed\<close> is raised by \<open>step\<close> at
  \<open>idx\<close>, evaluated, lowered by \<open>2 * step\<close> at \<open>idx\<close> and evaluated again; an exception of
  \<open>func\<close> ends the loop.
\<close>

primrec numeric_gradient_loop ::
  "(real list \<Rightarrow> error + real) \<Rightarrow> real list \<Rightarrow> real \<Rightarrow> nat list \<Rightarrow> real list
     \<Rightarrow> error + real list" where
  "numeric_gradient_loop func mx' step [] gradients = Inr gradients"
| "numeric_gradient_loop func mx' step (idx # idxs) gradients =
     (let perturbed = mx'[idx := mx' ! idx + step]
      in case func perturbed of
           Inl e \<Rightarrow> Inl e
         | Inr upper \<Rightarrow>
             (let perturbed2 = perturbed[idx := perturbed ! idx - 2 * step]
              in case func perturbed2 of
                   Inl e \<Rightarrow> Inl e
                 | Inr lower \<Rightarrow>
                     numeric_gradient_loop func mx' step idxs
                       (gradients @ [(upper - lower) / (2 * step)])))"

definition numeric_gradient ::
  "(real list \<Rightarrow> error + real) \<Rightarrow> real list \<Rightarrow> real \<Rightarrow> error + real list" where
  "numeric_gradient func mx' step = numeric_gradient_loop func mx' step [0..<length mx'] []"

subsection \<open>\<open>horiuchi_decomposition\<close>\<close>

text \<open>
  The inner loop
  \<open>for i, (grad, diff) in enumerate(zip(gradient, delta)): contributions[i] += grad * diff / steps\<close>.
\<close>

primrec accumulate :: "int \<Rightarrow> (nat \<times> real \<times> real) list \<Rightarrow> real list \<Rightarrow> real list" where
  "accumulate steps [] contributions = contributions"
| "accumulate steps (entry # entries) contributions =
     (case entry of
        (i, grad, diff) \<Rightarrow>
          accumulate steps entries
            (contributions[i := contributions ! i + grad * diff / real_of_int steps]))"

text \<open>The outer loop \<open>for step_idx in range(steps)\<close>; \<open>steps\<close> is a Python \<open>int\<close>.\<close>

primrec horiuchi_loop ::
  "(real list \<Rightarrow> error + real) \<Rightarrow> real list \<Rightarrow> real list \<Rightarrow> int \<Rightarrow> nat list \<Rightarrow> real list
     \<Rightarrow> error + real list" where
  "horiuchi_loop func baseline delta steps [] contributions = Inr contributions"
| "horiuchi_loop func baseline delta steps (step_idx # rest) contributions =
     (let weight = (real step_idx + 1 / 2) / real_of_int steps;
          mx_step = map (\<lambda>(a, d). a + weight * d) (zip baseline delta)
      in case numeric_gradient func mx_step gradient_step of
           Inl e \<Rightarrow> Inl e
         | Inr gradient \<Rightarrow>
             horiuchi_loop func baseline delta steps rest
               (accumulate steps (enumerate 0 (zip gradient delta)) contributions))"

definition horiuchi_decomposition ::
  "real list \<Rightarrow> real list \<Rightarrow> real list \<Rightarrow> real option list \<Rightarrow> real list option \<Rightarrow> int
     \<Rightarrow> error + DecompositionResult" where
  "horiuchi_decomposition baseline_mx comparison_mx age_lower' age_upper' ax' steps =
     (if length baseline_mx \<noteq> length comparison_mx
      then Inl (ValueError BaselineComparisonLength)
      else
        (let func = (\<lambda>values. life_expectancy_from_mx values age_lower' age_upper' ax');
             delta = map (\<lambda>(a, b). b - a) (zip baseline_mx comparison_mx);
             contributions = map (\<lambda>_. 0) delta
         in case horiuchi_loop func baseline_mx delta steps [0..<nat steps] contributions of
              Inl e \<Rightarrow> Inl e
            | Inr contributions' \<Rightarrow>
                Inr \<lparr>DecompositionResult.age_lower = age_lower', age_upper = age_upper',
                     contribution = contributions'\<rparr>))"

text \<open>
  \<open>to_records\<close> reads \<open>age_upper[i]\<close> and \<open>contribution[i]\<close> for every index of
  \<open>age_lower\<close>, which raises \<open>IndexError\<close> when one of them is shorter.
\<close>

definition to_records :: "DecompositionResult \<Rightarrow> error + (real \<times> real option \<times> real) list" where
  "to_records r =
     (if length (DecompositionResult.age_upper r) < length (DecompositionResult.age_lower r) \<or>
         length (contribution r) < length (DecompositionResult.age_lower r)
      then Inl IndexError
      else Inr (map (\<lambda>i. (DecompositionResult.age_lower r ! i,
                           DecompositionResult.age_upper r ! i, contribution r ! i))
                  [0..<length (DecompositionResult.age_lower r)]))"

subsection \<open>Records of a cohort\<close>

text \<open>
  A record is a dictionary from column names to values; the values that occur are
  \<open>None\<close>, strings and numbers. \<open>row.get(col)\<close> gives \<open>None\<close> for a missing column,
  \<open>row[col]\<close> raises \<open>KeyError\<close>. \<open>float\<close> of a string parses it: the parser is the
  parameter \<open>str_float\<close>, which gives \<open>None\<close> where Python raises \<open>ValueError\<close>.
\<close>

datatype pyval = PyNone | PyStr string | PyFloat real

type_synonym column = string

type_synonym row = "column \<rightharpoonup> pyval"

type_synonym age_key = "real \<times> real option"

definition row_get :: "row \<Rightarrow> column \<Rightarrow> pyval" where
  "row_get r col = (case r col of None \<Rightarrow> PyNone | Some v \<Rightarrow> v)"

definition row_getitem :: "row \<Rightarrow> column \<Rightarrow> error + pyval" where
  "row_getitem r col = (case r col of None \<Rightarrow> Inl KeyError | Some v \<Rightarrow> Inr v)"

definition py_float :: "(string \<Rightarrow> real option) \<Rightarrow> pyval \<Rightarrow> error + real" where
  "py_float str_float v =
     (case v of
        PyNone \<Rightarrow> Inl TypeError
      | PyFloat x \<Rightarrow> Inr x
      | PyStr s \<Rightarrow> (case str_float s of
                      None \<Rightarrow> Inl (ValueError (NotAFloat s))
                    | Some x \<Rightarrow> Inr x))"

subsection \<open>\<open>_key\<close>\<close>

definition key :: "(string \<Rightarrow> real option) \<Rightarrow> pyval \<Rightarrow> pyval \<Rightarrow> error + age_key" where
  "key str_float age_lower' age_upper' =
     (case py_float str_float age_lower' of
        Inl e \<Rightarrow> Inl e
      | Inr lower \<Rightarrow>
          (if age_upper' = PyNone then Inr (lower, None)
           else case py_float str_float age_upper' of
                  Inl e \<Rightarrow> Inl e
                | Inr upper \<Rightarrow> Inr (lower, Some upper)))"

subsection \<open>\<open>decompose_between_counties\<close>\<close>

text \<open>
  The dictionary comprehension
  \<open>{_key(row[age_lower_col], row[age_upper_col]): row for row in rows}\<close>. A dictionary
  is an association list in insertion order; a key met again keeps its place and takes
  the new row.
\<close>

primrec index_rows ::
  "(string \<Rightarrow> real option) \<Rightarrow> column \<Rightarrow> column \<Rightarrow> row list \<Rightarrow> (age_key \<times> row) list
     \<Rightarrow> error + (age_key \<times> row) list" where
  "index_rows str_float age_lower_col age_upper_col [] index = Inr index"
| "index_rows str_float age_lower_col age_upper_col (r # rows) index =
     (case row_getitem r age_lower_col of
        Inl e \<Rightarrow> Inl e
      | Inr low \<Rightarrow>
          (case row_getitem r age_upper_col of
             Inl e \<Rightarrow> Inl e
           | Inr high \<Rightarrow>
               (case key str_float low high of
                  Inl e \<Rightarrow> Inl e
                | Inr k \<Rightarrow>
                    index_rows str_float age_lower_col age_upper_col rows
                      (AList.update k r index))))"

text \<open>
  \<open>sorted\<close> on a set of keys. Python orders tuples lexicographically, and the order
  comparison of \<open>None\<close> with a number raises \<open>TypeError\<close>: two keys are comparable unless
  they have the same lower bound and exactly one of them has no upper bound. Two keys that
  are neighbours in the result have been compared by the sort, whatever order it worked
  in, so \<open>sorted\<close> raises exactly when two of the keys are not comparable. The keys of a
  set are distinct, so the order in which the set hands them to \<open>sorted\<close> does not show in
  the result.
\<close>

definition comparable :: "age_key \<Rightarrow> age_key \<Rightarrow> bool" where
  "comparable k1 k2 \<longleftrightarrow> fst k1 \<noteq> fst k2 \<or> (snd k1 = None \<longleftrightarrow> snd k2 = None)"

definition py_sorted :: "age_key list \<Rightarrow> error + age_key list" where
  "py_sorted keys =
     (if list_all (\<lambda>k1. list_all (\<lambda>k2. comparable k1 k2) keys) keys
      then Inr (sort keys) else Inl TypeError)"

text \<open>\<open>sorted(set(index_a.keys()) & set(index_b.keys()))\<close>.\<close>

definition common_keys ::
  "(age_key \<times> row) list \<Rightarrow> (age_key \<times> row) list \<Rightarrow> error + age_key list" where
  "common_keys index_a index_b =
     py_sorted (filter (\<lambda>k. k \<in> set (map fst index_b)) (map fst index_a))"

text \<open>\<open>[float(index[key][mx_col]) for key in common_keys]\<close>.\<close>

primrec rates ::
  "(string \<Rightarrow> real option) \<Rightarrow> (age_key \<times> row) list \<Rightarrow> column \<Rightarrow> age_key list
     \<Rightarrow> error + real list" where
  "rates str_float index mx_col [] = Inr []"
| "rates str_float index mx_col (k # ks) =
     (case map_of index k of
        None \<Rightarrow> Inl KeyError
      | Some r \<Rightarrow>
          (case row_getitem r mx_col of
             Inl e \<Rightarrow> Inl e
           | Inr v \<Rightarrow>
               (case py_float str_float v of
                  Inl e \<Rightarrow> Inl e
                | Inr x \<Rightarrow>
                    (case rates str_float index mx_col ks of
                       Inl e \<Rightarrow> Inl e
                     | Inr xs \<Rightarrow> Inr (x # xs)))))"

text \<open>
  The loop that collects \<open>ax\<close>: county A's value, else county B's; a key without either
  empties the collection and ends the loop.
\<close>

primrec collect_ax ::
  "(string \<Rightarrow> real option) \<Rightarrow> (age_key \<times> row) list \<Rightarrow> (age_key \<times> row) list \<Rightarrow> column
     \<Rightarrow> age_key list \<Rightarrow> real list \<Rightarrow> error + real list" where
  "collect_ax str_float index_a index_b ax_col [] collected = Inr collected"
| "collect_ax str_float index_a index_b ax_col (k # ks) collected =
     (case map_of index_a k of
        None \<Rightarrow> Inl KeyError
      | Some ra \<Rightarrow>
          (case map_of index_b k of
             None \<Rightarrow> Inl KeyError
           | Some rb \<Rightarrow>
               (let val_a = row_get ra ax_col;
                    val_b = row_get rb ax_col;
                    chosen = (if val_a \<noteq> PyNone then val_a else val_b)
                in if chosen = PyNone then Inr []
                   else case py_float str_float chosen of
                          Inl e \<Rightarrow> Inl e
                        | Inr x \<Rightarrow>
                            collect_ax str_float index_a index_b ax_col ks
                              (collected @ [x]))))"

definition ax_values ::
  "(string \<Rightarrow> real option) \<Rightarrow> (age_key \<times> row) list \<Rightarrow> (age_key \<times> row) list
     \<Rightarrow> column option \<Rightarrow> age_key list \<Rightarrow> error + real list option" where
  "ax_values str_float index_a index_b ax_col keys =
     (case ax_col of
        None \<Rightarrow> Inr None
      | Some col \<Rightarrow>
          (case collect_ax str_float index_a index_b col keys [] of
             Inl e \<Rightarrow> Inl e
           | Inr collected \<Rightarrow> if collected \<noteq> [] then Inr (Some collected) else Inr None))"

text \<open>One row of the output: the record of \<open>to_records\<close>, updated with the five labels.\<close>

definition output_row ::
  "string \<Rightarrow> string \<Rightarrow> string \<Rightarrow> string \<Rightarrow> real \<Rightarrow> real \<times> real option \<times> real \<Rightarrow> row" where
  "output_row county_a county_b race sex total_gap rec =
     (case rec of
        (low, high, c) \<Rightarrow>
          [''age_lower'' \<mapsto> PyFloat low,
           ''age_upper'' \<mapsto> (case high of None \<Rightarrow> PyNone | Some h \<Rightarrow> PyFloat h),
           ''contribution'' \<mapsto> PyFloat c,
           ''county_a'' \<mapsto> PyStr county_a,
           ''county_b'' \<mapsto> PyStr county_b,
           ''race'' \<mapsto> PyStr race,
           ''sex'' \<mapsto> PyStr sex,
           ''life_expectancy_difference'' \<mapsto> PyFloat total_gap])"

text \<open>
  \<open>data\<close> is a list of records (the first branch of \<open>_ensure_records\<close>; a data frame is
  turned into such a list by a library outside the repository).
\<close>

definition decompose_between_counties ::
  "(string \<Rightarrow> real option) \<Rightarrow> row list \<Rightarrow> column \<Rightarrow> column \<Rightarrow> column \<Rightarrow> column
     \<Rightarrow> column \<Rightarrow> column \<Rightarrow> string \<Rightarrow> string \<Rightarrow> string \<Rightarrow> string \<Rightarrow> column option
     \<Rightarrow> int \<Rightarrow> error + row list" where
  "decompose_between_counties str_float data county_col race_col sex_col age_lower_col
       age_upper_col mx_col county_a county_b race sex ax_col steps =
     (let records = data;
          cohort = filter (\<lambda>r. row_get r race_col = PyStr race \<and> row_get r sex_col = PyStr sex)
                     records
      in if cohort = [] then Inl (ValueError NoCohortRows)
         else
           (let county_a_rows = filter (\<lambda>r. row_get r county_col = PyStr county_a) cohort;
                county_b_rows = filter (\<lambda>r. row_get r county_col = PyStr county_b) cohort
            in if county_a_rows = [] \<or> county_b_rows = [] then Inl (ValueError BothCounties)
               else
                 (case index_rows str_float age_lower_col age_upper_col county_a_rows [] of
                    Inl e \<Rightarrow> Inl e
                  | Inr index_a \<Rightarrow>
                 (case index_rows str_float age_lower_col age_upper_col county_b_rows [] of
                    Inl e \<Rightarrow> Inl e
                  | Inr index_b \<Rightarrow>
                 (case common_keys index_a index_b of
                    Inl e \<Rightarrow> Inl e
                  | Inr keys \<Rightarrow>
                 if keys = [] then Inl (ValueError NoOverlap)
                 else
                 (case rates str_float index_a mx_col keys of
                    Inl e \<Rightarrow> Inl e
                  | Inr baseline_mx \<Rightarrow>
                 (case rates str_float index_b mx_col keys of
                    Inl e \<Rightarrow> Inl e
                  | Inr comparison_mx \<Rightarrow>
                 (case ax_values str_float index_a index_b ax_col keys of
                    Inl e \<Rightarrow> Inl e
                  | Inr axs \<Rightarrow>
                 (case horiuchi_decomposition baseline_mx comparison_mx (map fst keys)
                         (map snd keys) axs steps of
                    Inl e \<Rightarrow> Inl e
                  | Inr result \<Rightarrow>
                 (case to_records result of
                    Inl e \<Rightarrow> Inl e
                  | Inr output \<Rightarrow>
                      Inr (map (output_row county_a county_b race sex
                                  (sum_list (contribution result))) output)))))))))))"

section \<open>Properties of a life table, as the specification words them\<close>

text \<open>A full table: every one of the twelve columns has one entry per age group.\<close>

definition full_table :: "nat \<Rightarrow> LifeTable \<Rightarrow> bool" where
  "full_table k t \<longleftrightarrow>
     length (LifeTable.age_lower t) = k \<and> length (LifeTable.age_upper t) = k \<and>
     length (n t) = k \<and> length (LifeTable.mx t) = k \<and> length (LifeTable.ax t) = k \<and>
     length (qx t) = k \<and> length (px t) = k \<and> length (lx t) = k \<and>
     length (dx t) = k \<and> length (Lx t) = k \<and> length (Tx t) = k \<and>
     length (ex t) = k"

text \<open>
  The input is rejected: the three vectors differ in length, there are fewer than two
  age groups, a non-final upper bound is undefined, a defined upper bound does not exceed
  its lower bound, a supplied \<open>ax\<close> differs in length, or a rate is negative.
\<close>

definition invalid_input :: "LifeTableInput \<Rightarrow> bool" where
  "invalid_input data \<longleftrightarrow>
     \<not> (length (LifeTableInput.age_lower data) = length (LifeTableInput.age_upper data) \<and>
        length (LifeTableInput.age_upper data) = length (LifeTableInput.mx data)) \<or>
     length (LifeTableInput.mx data) < 2 \<or>
     list_ex (\<lambda>high. high = None) (butlast (LifeTableInput.age_upper data)) \<or>
     list_ex (\<lambda>(low, high). case high of None \<Rightarrow> False | Some h \<Rightarrow> h \<le> low)
       (zip (LifeTableInput.age_lower data) (LifeTableInput.age_upper data)) \<or>
     (case LifeTableInput.ax data of
        None \<Rightarrow> False
      | Some ax_list \<Rightarrow> length ax_list \<noteq> length (LifeTableInput.mx data)) \<or>
     list_ex (\<lambda>rate. rate < 0) (LifeTableInput.mx data)"

text \<open>
  The partition \<open>[0,1), [1,5), [5,\<infinity>)\<close> with the baseline rates of the test suite, and the
  same input with one rate negated.
\<close>

definition example_input :: LifeTableInput where
  "example_input =
     \<lparr>LifeTableInput.age_lower = [0, 1, 5], age_upper = [Some 1, Some 5, None],
      mx = [5 / 1000, 8 / 10000, 2 / 100], ax = None, radix = default_radix\<rparr>"

definition negative_rate_input :: LifeTableInput where
  "negative_rate_input =
     \<lparr>LifeTableInput.age_lower = [0, 1, 5], age_upper = [Some 1, Some 5, None],
      mx = [5 / 1000, - (8 / 10000), 2 / 100], ax = None, radix = default_radix\<rparr>"

text \<open>The table of \<open>example_input\<close>.\<close>

definition example_table :: LifeTable where
  "example_table =
     \<lparr>LifeTable.age_lower = [0, 1, 5], age_upper = [Some 1, Some 5, None],
      n = [Some 1, Some 4, None], mx = [1 / 200, 1 / 1250, 1 / 50],
      ax = [1 / 2, 2, 50], qx = [2 / 401, 1 / 313, 1],
      px = [399 / 401, 312 / 313, 0],
      lx = [100000, 39900000 / 401, 12448800000 / 125513],
      dx = [200000 / 401, 39900000 / 125513, 12448800000 / 125513],
      Lx = [40000000 / 401, 49875000000 / 125513, 622440000000 / 125513],
      Tx = [684835000000 / 125513, 672315000000 / 125513, 622440000000 / 125513],
      ex = [6848350 / 125513, 16850 / 313, 50]\<rparr>"

text \<open>
  A negative radix, with \<open>ax\<close> supplied so that every value of the table is a dyadic
  number, and its table.
\<close>

definition negative_radix_input :: LifeTableInput where
  "negative_radix_input =
     \<lparr>LifeTableInput.age_lower = [0, 1], age_upper = [Some 1, None],
      mx = [1 / 2, 1 / 2], ax = Some [1, 2], radix = - 8\<rparr>"

definition negative_radix_table :: LifeTable where
  "negative_radix_table =
     \<lparr>LifeTable.age_lower = [0, 1], age_upper = [Some 1, None],
      n = [Some 1, None], mx = [1 / 2, 1 / 2], ax = [1, 2], qx = [1 / 2, 1],
      px = [1 / 2, 0], lx = [- 8, - 4], dx = [- 4, - 4], Lx = [- 8, - 8],
      Tx = [- 16, - 8], ex = [2, 2]\<rparr>"

text \<open>
  A supplied \<open>ax\<close> beyond the width of the first interval, for which the denominator
  \<open>1 + (n - a) * m\<close> of that interval is zero, and its table.
\<close>

definition zero_denominator_input :: LifeTableInput where
  "zero_denominator_input =
     \<lparr>LifeTableInput.age_lower = [0, 1], age_upper = [Some 1, None],
      mx = [1, 1], ax = Some [2, 1], radix = 1\<rparr>"

definition zero_denominator_table :: LifeTable where
  "zero_denominator_table =
     \<lparr>LifeTable.age_lower = [0, 1], age_upper = [Some 1, None],
      n = [Some 1, None], mx = [1, 1], ax = [2, 1], qx = [1, 1],
      px = [0, 0], lx = [1, 0], dx = [1, 0], Lx = [2, 0], Tx = [2, 0], ex = [2, 0]\<rparr>"

text \<open>Lower bounds that decrease, and the table built from them.\<close>

definition decreasing_lower_input :: LifeTableInput where
  "decreasing_lower_input =
     \<lparr>LifeTableInput.age_lower = [5, 0], age_upper = [Some 10, None],
      mx = [1, 1], ax = None, radix = 1\<rparr>"

definition decreasing_lower_table :: LifeTable where
  "decreasing_lower_table =
     \<lparr>LifeTable.age_lower = [5, 0], age_upper = [Some 10, None],
      n = [Some 5, None], mx = [1, 1], ax = [5 / 2, 1], qx = [1, 1],
      px = [0, 0], lx = [1, 0], dx = [1, 0], Lx = [5 / 2, 0],
      Tx = [5 / 2, 0], ex = [5 / 2, 0]\<rparr>"

text \<open>A second row whose upper bound equals its lower bound.\<close>

definition inverted_row_input :: LifeTableInput where
  "inverted_row_input =
     \<lparr>LifeTableInput.age_lower = [0, 5], age_upper = [Some 1, Some 5],
      mx = [1, 1], ax = None, radix = 1\<rparr>"

section \<open>The decomposition, as the specification words it\<close>

text \<open>
  \<open>f(rates)\<close> is \<open>ex[0]\<close> of the life table built on the shared partition with those
  rates. Building the table can fail, so \<open>f\<close> has a value only where
  \<open>defined_at\<close> holds; \<open>value_at\<close> is that value.
\<close>

definition defined_at :: "(real list \<Rightarrow> error + real) \<Rightarrow> real list \<Rightarrow> bool" where
  "defined_at func mx' \<longleftrightarrow> (case func mx' of Inr _ \<Rightarrow> True | Inl _ \<Rightarrow> False)"

definition value_at :: "(real list \<Rightarrow> error + real) \<Rightarrow> real list \<Rightarrow> real" where
  "value_at func mx' = (case func mx' of Inr x \<Rightarrow> x | Inl _ \<Rightarrow> 0)"

text \<open>
  The intermediate rate vector at the midpoint of segment \<open>j\<close>:
  \<open>mx_step_i = baseline_mx_i + ((j + 0.5) / steps) * delta_i\<close> with
  \<open>delta_i = comparison_mx_i - baseline_mx_i\<close>.
\<close>

definition mx_step_spec :: "real list \<Rightarrow> real list \<Rightarrow> int \<Rightarrow> nat \<Rightarrow> real list" where
  "mx_step_spec baseline comparison steps j =
     map (\<lambda>i. baseline ! i +
                ((real j + 1 / 2) / real_of_int steps) * (comparison ! i - baseline ! i))
         [0..<length baseline]"

text \<open>
  The symmetric central difference in component \<open>i\<close>:
  \<open>(f(rates with component i increased by h) - f(rates with component i decreased by h)) / (2h)\<close>,
  \<open>h = 1e-5\<close>.
\<close>

definition gradient_spec :: "(real list \<Rightarrow> error + real) \<Rightarrow> real list \<Rightarrow> nat \<Rightarrow> real" where
  "gradient_spec func mx' i =
     (value_at func (mx'[i := mx' ! i + gradient_step]) -
      value_at func (mx'[i := mx' ! i - gradient_step])) / (2 * gradient_step)"

text \<open>
  The contribution of age group \<open>i\<close>: the sum over \<open>j = 0..steps-1\<close> of
  \<open>gradient_i(mx_step) * delta_i / steps\<close>.
\<close>

definition contribution_spec ::
  "(real list \<Rightarrow> error + real) \<Rightarrow> real list \<Rightarrow> real list \<Rightarrow> int \<Rightarrow> nat \<Rightarrow> real" where
  "contribution_spec func baseline comparison steps i =
     sum_list (map (\<lambda>j. gradient_spec func (mx_step_spec baseline comparison steps j) i *
                          (comparison ! i - baseline ! i) / real_of_int steps)
                 [0..<nat steps])"

text \<open>
  Every life table that the decomposition asks for can be built: at every midpoint and
  for every component, \<open>f\<close> has a value at both perturbed vectors.
\<close>

definition path_defined ::
  "(real list \<Rightarrow> error + real) \<Rightarrow> real list \<Rightarrow> real list \<Rightarrow> int \<Rightarrow> bool" where
  "path_defined func baseline comparison steps \<longleftrightarrow>
     list_all (\<lambda>j. list_all (\<lambda>i.
         defined_at func ((mx_step_spec baseline comparison steps j)
            [i := mx_step_spec baseline comparison steps j ! i + gradient_step]) \<and>
         defined_at func ((mx_step_spec baseline comparison steps j)
            [i := mx_step_spec baseline comparison steps j ! i - gradient_step]))
       [0..<length baseline]) [0..<nat steps]"

text \<open>
  What one pass \<open>j\<close> of the loop adds to the sum of all contributions.
\<close>

definition segment_term ::
  "(real list \<Rightarrow> error + real) \<Rightarrow> real list \<Rightarrow> real list \<Rightarrow> int \<Rightarrow> nat \<Rightarrow> real" where
  "segment_term func baseline comparison steps j =
     sum_list (map (\<lambda>i. gradient_spec func (mx_step_spec baseline comparison steps j) i *
                          (comparison ! i - baseline ! i) / real_of_int steps)
                 [0..<length baseline])"

text \<open>
  The point of the straight path from the baseline to the comparison rates at \<open>t\<close>, and the
  change of \<open>f\<close> over segment \<open>j\<close> of the path.
\<close>

definition path_point :: "real list \<Rightarrow> real list \<Rightarrow> real \<Rightarrow> real list" where
  "path_point baseline comparison t =
     map (\<lambda>i. baseline ! i + t * (comparison ! i - baseline ! i)) [0..<length baseline]"

definition segment_change ::
  "(real list \<Rightarrow> error + real) \<Rightarrow> real list \<Rightarrow> real list \<Rightarrow> int \<Rightarrow> nat \<Rightarrow> real" where
  "segment_change func baseline comparison steps j =
     value_at func (path_point baseline comparison (real (Suc j) / real_of_int steps)) -
     value_at func (path_point baseline comparison (real j / real_of_int steps))"

text \<open>
  The direct difference \<open>ex_comparison[0] - ex_baseline[0]\<close> of the two life tables, and
  the absolute error of the sum of the contributions against it, as the test suite
  computes them.
\<close>

definition direct_difference ::
  "real list \<Rightarrow> real list \<Rightarrow> real list \<Rightarrow> real option list \<Rightarrow> real list option
     \<Rightarrow> error + real" where
  "direct_difference baseline comparison al au axs =
     (case life_expectancy_from_mx baseline al au axs of
        Inl e \<Rightarrow> Inl e
      | Inr e_a \<Rightarrow>
          (case life_expectancy_from_mx comparison al au axs of
             Inl e \<Rightarrow> Inl e
           | Inr e_b \<Rightarrow> Inr (e_b - e_a)))"

definition approximation_error ::
  "real list \<Rightarrow> real list \<Rightarrow> real list \<Rightarrow> real option list \<Rightarrow> real list option \<Rightarrow> int
     \<Rightarrow> error + real" where
  "approximation_error baseline comparison al au axs steps =
     (case horiuchi_decomposition baseline comparison al au axs steps of
        Inl e \<Rightarrow> Inl e
      | Inr r \<Rightarrow>
          (case direct_difference baseline comparison al au axs of
             Inl e \<Rightarrow> Inl e
           | Inr d \<Rightarrow> Inr \<bar>sum_list (contribution r) - d\<bar>))"

section \<open>Closed forms of the life expectancy on two small partitions\<close>

text \<open>
  On the partition \<open>[0,1), [1,\<infinity>)\<close> without \<open>ax\<close>, and with a first rate of at most \<open>2\<close>
  (so that \<open>qx[0]\<close> is not clamped), \<open>ex[0]\<close> is this function of the two rates.
\<close>

definition two_group_ex0 :: "real \<Rightarrow> real \<Rightarrow> real" where
  "two_group_ex0 m0 m1 = 2 / (2 + m0) + ((2 - m0) / (2 + m0)) / max m1 (1 / 10 ^ 12)"

text \<open>
  On the partition \<open>[0,1), [1,5), [5,\<infinity>)\<close> without \<open>ax\<close>, with a first rate of at most \<open>2\<close>
  and a second rate of at most \<open>1/2\<close>, \<open>ex[0]\<close> is this function of the three rates.
\<close>

definition three_group_ex0 :: "real \<Rightarrow> real \<Rightarrow> real \<Rightarrow> real" where
  "three_group_ex0 m0 m1 m2 =
     2 / (2 + m0) +
     ((2 - m0) / (2 + m0)) *
       (4 / (1 + 2 * m1) + ((1 - 2 * m1) / (1 + 2 * m1)) / max m2 (1 / 10 ^ 12))"

section \<open>Records of two counties\<close>

text \<open>
  Records in the columns of the test suite, for counties \<open>A\<close> and \<open>B\<close>, one race and one
  sex, on the partition \<open>[0,1), [1,\<infinity>)\<close>; and the same with county \<open>B\<close> on the partition
  \<open>[0,5), [5,\<infinity>)\<close>, which shares no age group with that of county \<open>A\<close>.
\<close>

definition county_record :: "string \<Rightarrow> real \<Rightarrow> real option \<Rightarrow> real \<Rightarrow> row" where
  "county_record county low high rate =
     [''county'' \<mapsto> PyStr county, ''race'' \<mapsto> PyStr ''White'', ''sex'' \<mapsto> PyStr ''Female'',
      ''age_lower'' \<mapsto> PyFloat low,
      ''age_upper'' \<mapsto> (case high of None \<Rightarrow> PyNone | Some h \<Rightarrow> PyFloat h),
      ''mx'' \<mapsto> PyFloat rate]"

definition example_records :: "row list" where
  "example_records =
     [county_record ''A'' 0 (Some 1) (1 / 10), county_record ''A'' 1 None (1 / 10),
      county_record ''B'' 0 (Some 1) (3 / 10), county_record ''B'' 1 None (3 / 10)]"

definition disjoint_records :: "row list" where
  "disjoint_records =
     [county_record ''A'' 0 (Some 1) (1 / 10), county_record ''A'' 1 None (1 / 10),
      county_record ''B'' 0 (Some 5) (3 / 10), county_record ''B'' 5 None (3 / 10)]"

text \<open>The call of the test suite on such records; no string is a number.\<close>

definition example_call :: "row list \<Rightarrow> string \<Rightarrow> string \<Rightarrow> int \<Rightarrow> error + row list" where
  "example_call data county_b race steps =
     decompose_between_counties (\<lambda>_. None) data ''county'' ''race'' ''sex'' ''age_lower''
       ''age_upper'' ''mx'' ''A'' county_b race ''Female'' None steps"

text \<open>The rows that the call returns on \<open>example_records\<close> with one step.\<close>

definition example_output :: "row list" where
  "example_output =
     map (output_row ''A'' ''B'' ''White'' ''Female''
            (- 44000000000 / 48399999999 + - 6000000000 / 1466666663))
       [(0, Some 1, - 44000000000 / 48399999999), (1, None, - 6000000000 / 1466666663)]"

section \<open>Rate vectors\<close>

text \<open>
  The example of the specification and of the test suite: the partition
  \<open>[0,1), [1,5), [5,\<infinity>)\<close> with baseline rates \<open>[0.005, 0.0008, 0.02]\<close> and comparison rates
  \<open>[0.006, 0.001, 0.018]\<close>.
\<close>

definition example_baseline :: "real list" where
  "example_baseline = [5 / 1000, 8 / 10000, 2 / 100]"

definition example_comparison :: "real list" where
  "example_comparison = [6 / 1000, 1 / 1000, 18 / 1000]"

text \<open>
  Two rate vectors on the partition \<open>[0,1), [1,\<infinity>)\<close> that differ in the rate of the open
  interval, \<open>0.01\<close> against \<open>0.05\<close>.
\<close>

definition low_rates :: "real list" where
  "low_rates = [1 / 100, 1 / 100]"

definition high_rates :: "real list" where
  "high_rates = [1 / 100, 5 / 100]"

text \<open>
  For these two pairs of vectors and \<open>steps = 50\<close>: what pass \<open>j\<close> of the loop adds to the
  sum of the contributions, less the change of \<open>ex[0]\<close> over segment \<open>j\<close> of the path.
\<close>

definition example_gap :: "nat \<Rightarrow> real" where
  "example_gap j =
     segment_term (\<lambda>values. life_expectancy_from_mx values [0, 1, 5] [Some 1, Some 5, None] None)
       example_baseline example_comparison 50 j -
     segment_change (\<lambda>values. life_expectancy_from_mx values [0, 1, 5] [Some 1, Some 5, None] None)
       example_baseline example_comparison 50 j"

definition rates_gap :: "nat \<Rightarrow> real" where
  "rates_gap j =
     segment_term (\<lambda>values. life_expectancy_from_mx values [0, 1] [Some 1, None] None)
       low_rates high_rates 50 j -
     segment_change (\<lambda>values. life_expectancy_from_mx values [0, 1] [Some 1, None] None)
       low_rates high_rates 50 j"

section \<open>Validation and the shape of the result\<close>

lemma check_bounds_Inr_iff:
  "check_bounds i rows = Inr u \<longleftrightarrow>
     list_all (\<lambda>(low, high). case high of None \<Rightarrow> True | Some h \<Rightarrow> low < h) rows"
  by (induction i rows rule: check_bounds.induct) (auto split: option.splits)

lemma check_bounds_Inl:
  "check_bounds i rows = Inl e \<Longrightarrow> \<exists>k. e = ValueError (UpperMustExceed k)"
  by (induction i rows rule: check_bounds.induct) (auto split: option.splits if_splits)

lemma check_bounds_Inl_not_all:
  "check_bounds i rows = Inl e \<Longrightarrow>
     \<not> list_all (\<lambda>(low, high). case high of None \<Rightarrow> True | Some h \<Rightarrow> low < h) rows"
  using check_bounds_Inr_iff [of i rows "()"] by auto

lemma validate_inputs_Inl:
  "validate_inputs data = Inl e \<Longrightarrow> \<exists>m. e = ValueError m"
  by (auto simp: validate_inputs_def Let_def split: if_splits sum.splits option.splits
           dest: check_bounds_Inl)

lemma validate_inputs_Inr_iff:
  "validate_inputs data = Inr u \<longleftrightarrow>
     length (LifeTableInput.age_lower data) = length (LifeTableInput.age_upper data) \<and>
     length (LifeTableInput.age_upper data) = length (LifeTableInput.mx data) \<and>
     2 \<le> length (LifeTableInput.age_lower data) \<and>
     list_all (\<lambda>(low, high). case high of None \<Rightarrow> True | Some h \<Rightarrow> low < h)
       (zip (LifeTableInput.age_lower data) (LifeTableInput.age_upper data)) \<and>
     (case LifeTableInput.ax data of None \<Rightarrow> True
      | Some ax_list \<Rightarrow> length ax_list = length (LifeTableInput.age_lower data)) \<and>
     \<not> list_ex (\<lambda>high. high = None) (butlast (LifeTableInput.age_upper data))"
  by (auto simp: validate_inputs_def Let_def check_bounds_Inr_iff
           split: if_splits sum.splits option.splits dest: check_bounds_Inl_not_all)

lemma length_lx_loop: "length (lx_loop l ps) = length l + length ps"
  by (induction ps arbitrary: l) auto

lemma length_Tx_loop: "length (Tx_loop L is T) = length T"
  by (induction "is" arbitrary: T) auto

lemma length_compute_ax:
  "length (compute_ax al au m) = min (length al) (min (length au) (length m))"
  by (simp add: compute_ax_def)

lemma length_n_col: "length (n_col al au) = min (length al) (length au)"
  by (simp add: n_col_def)

lemma length_qx_col: "length (qx_col ns m a) = min (length ns) (min (length m) (length a))"
  by (simp add: qx_col_def)

lemma length_Lx_col:
  "length (Lx_col ns l d a m) =
     min (length ns) (min (length l) (min (length d) (min (length a) (length m))))"
  by (simp add: Lx_col_def)

lemma Tx_col_Inr: "L \<noteq> [] \<Longrightarrow> \<exists>T. Tx_col L = Inr T \<and> length T = length L"
  by (simp add: Tx_col_def length_Tx_loop)


lemma build_life_table_Inl:
  "build_life_table data = Inl e \<Longrightarrow>
     validate_inputs data = Inl e \<or>
     (validate_inputs data = Inr () \<and> list_ex (\<lambda>rate. rate < 0) (LifeTableInput.mx data)
        \<and> e = ValueError NonNegative) \<or>
     (validate_inputs data = Inr () \<and> e = IndexError)"
  by (auto simp: build_life_table_def Let_def Tx_col_def split: sum.splits if_splits)

lemma build_life_table_Inr:
  assumes "build_life_table data = Inr t"
  shows "validate_inputs data = Inr ()"
    and "\<not> list_ex (\<lambda>rate. rate < 0) (LifeTableInput.mx data)"
    and "LifeTable.age_lower t = LifeTableInput.age_lower data"
    and "LifeTable.age_upper t = LifeTableInput.age_upper data"
    and "LifeTable.mx t = LifeTableInput.mx data"
    and "LifeTable.ax t =
           (case LifeTableInput.ax data of
              Some ax_list \<Rightarrow> ax_list
            | None \<Rightarrow> compute_ax (LifeTableInput.age_lower data)
                        (LifeTableInput.age_upper data) (LifeTableInput.mx data))"
    and "n t = n_col (LifeTableInput.age_lower data) (LifeTableInput.age_upper data)"
    and "qx t = qx_col (n t) (LifeTable.mx t) (LifeTable.ax t)"
    and "px t = map (\<lambda>value. 1 - value) (qx t)"
    and "lx t = lx_loop [LifeTableInput.radix data] (butlast (px t))"
    and "dx t = map (\<lambda>(l, q). l * q) (zip (lx t) (qx t))"
    and "Lx t = Lx_col (n t) (lx t) (dx t) (LifeTable.ax t) (LifeTable.mx t)"
    and "Tx_col (Lx t) = Inr (Tx t)"
    and "ex t = ex_col (Tx t) (lx t)"
  using assms
  by (auto simp: build_life_table_def Let_def split: sum.splits if_splits)

lemma build_life_table_total:
  assumes v: "validate_inputs data = Inr ()"
    and nn: "\<not> list_ex (\<lambda>rate. rate < 0) (LifeTableInput.mx data)"
  shows "\<exists>t. build_life_table data = Inr t"
proof -
  let ?k = "length (LifeTableInput.mx data)"
  let ?ax = "case LifeTableInput.ax data of
               Some ax_list \<Rightarrow> ax_list
             | None \<Rightarrow> compute_ax (LifeTableInput.age_lower data)
                         (LifeTableInput.age_upper data) (LifeTableInput.mx data)"
  let ?n = "n_col (LifeTableInput.age_lower data) (LifeTableInput.age_upper data)"
  let ?qx = "qx_col ?n (LifeTableInput.mx data) ?ax"
  let ?lx = "lx_loop [LifeTableInput.radix data] (butlast (map (\<lambda>value. 1 - value) ?qx))"
  let ?dx = "map (\<lambda>(l, q). l * q) (zip ?lx ?qx)"
  from v have len: "length (LifeTableInput.age_lower data) = ?k"
    "length (LifeTableInput.age_upper data) = ?k" "2 \<le> ?k"
    and axl: "case LifeTableInput.ax data of None \<Rightarrow> True | Some ax_list \<Rightarrow> length ax_list = ?k"
    by (auto simp: validate_inputs_Inr_iff split: option.splits)
  have lax: "length ?ax = ?k"
    using axl len by (auto simp: length_compute_ax split: option.splits)
  have ln: "length ?n = ?k" using len by (simp add: length_n_col)
  have lq: "length ?qx = ?k" using lax ln by (simp add: length_qx_col)
  have ll: "length ?lx = ?k" using lq len by (simp add: length_lx_loop)
  have "length (Lx_col ?n ?lx ?dx ?ax (LifeTableInput.mx data)) = ?k"
    using lax ln lq ll by (simp add: length_Lx_col)
  with len have "Lx_col ?n ?lx ?dx ?ax (LifeTableInput.mx data) \<noteq> []" by auto
  then obtain T where "Tx_col (Lx_col ?n ?lx ?dx ?ax (LifeTableInput.mx data)) = Inr T"
    using Tx_col_Inr by blast
  then show ?thesis
    using v nn by (simp add: build_life_table_def Let_def)
qed

lemma build_life_table_full:
  assumes "build_life_table data = Inr t"
  shows "full_table (length (LifeTableInput.mx data)) t"
proof -
  let ?k = "length (LifeTableInput.mx data)"
  note b = build_life_table_Inr [OF assms]
  from b(1) have len: "length (LifeTableInput.age_lower data) = ?k"
    "length (LifeTableInput.age_upper data) = ?k" "2 \<le> ?k"
    and axl: "case LifeTableInput.ax data of None \<Rightarrow> True | Some ax_list \<Rightarrow> length ax_list = ?k"
    by (auto simp: validate_inputs_Inr_iff split: option.splits)
  have lax: "length (LifeTable.ax t) = ?k"
    using axl len b(6) by (auto simp: length_compute_ax split: option.splits)
  have ln: "length (n t) = ?k" using len b(7) by (simp add: length_n_col)
  have lq: "length (qx t) = ?k" using lax ln b(5,8) by (simp add: length_qx_col)
  have lp: "length (px t) = ?k" using lq b(9) by simp
  have ll: "length (lx t) = ?k" using lp len b(10) by (simp add: length_lx_loop)
  have ld: "length (dx t) = ?k" using ll lq b(11) by simp
  have lL: "length (Lx t) = ?k" using lax ln ll ld b(5,12) by (simp add: length_Lx_col)
  have lT: "length (Tx t) = ?k"
  proof -
    from lL len have "Lx t \<noteq> []" by auto
    from Tx_col_Inr [OF this] b(13) lL show ?thesis by auto
  qed
  have le: "length (ex t) = ?k" using b(14) lT ll by (simp add: ex_col_def)
  show ?thesis
    using len lax ln lq lp ll ld lL lT le b(3,4,5) by (simp add: full_table_def)
qed

lemma list_all_bounds_iff:
  "list_all (\<lambda>(low, high). case high of None \<Rightarrow> True | Some h \<Rightarrow> low < h) rows \<longleftrightarrow>
   \<not> list_ex (\<lambda>(low, high). case high of None \<Rightarrow> False | Some h \<Rightarrow> h \<le> (low::real)) rows"
  by (force simp: list_all_iff list_ex_iff split: option.splits)

lemma invalid_input_iff:
  "invalid_input data \<longleftrightarrow>
     \<not> (validate_inputs data = Inr () \<and> \<not> list_ex (\<lambda>rate. rate < 0) (LifeTableInput.mx data))"
  unfolding invalid_input_def validate_inputs_Inr_iff list_all_bounds_iff
  by (auto split: option.splits)

text \<open>
  Claim C2. \<open>build_life_table\<close> fails with a \<open>ValueError\<close>, and so returns no table,
  whenever the vectors differ in length, there are fewer than two age groups, a non-final
  upper bound is undefined, a defined upper bound does not exceed its lower bound, a
  supplied \<open>ax\<close> differs in length, or a rate is negative; for every other input it returns
  a table with all twelve columns filled, one entry per age group.
\<close>

theorem build_life_table_validation:
  "(invalid_input data \<longrightarrow> (\<exists>m. build_life_table data = Inl (ValueError m))) \<and>
   (\<not> invalid_input data \<longrightarrow>
      (\<exists>t. build_life_table data = Inr t \<and> full_table (length (LifeTableInput.mx data)) t))"
proof (intro conjI impI)
  assume inv: "invalid_input data"
  show "\<exists>m. build_life_table data = Inl (ValueError m)"
  proof (cases "validate_inputs data")
    case (Inl e)
    then show ?thesis
      using validate_inputs_Inl [OF Inl] by (auto simp: build_life_table_def)
  next
    case (Inr u)
    with inv have "list_ex (\<lambda>rate. rate < 0) (LifeTableInput.mx data)"
      by (simp add: invalid_input_iff)
    with Inr show ?thesis by (simp add: build_life_table_def Let_def)
  qed
next
  assume "\<not> invalid_input data"
  then have "validate_inputs data = Inr ()"
    and "\<not> list_ex (\<lambda>rate. rate < 0) (LifeTableInput.mx data)"
    by (simp_all add: invalid_input_iff)
  then obtain t where "build_life_table data = Inr t"
    using build_life_table_total by blast
  then show "\<exists>t. build_life_table data = Inr t \<and>
      full_table (length (LifeTableInput.mx data)) t"
    using build_life_table_full by blast
qed

theorem build_life_table_validation_witness:
  "invalid_input negative_rate_input \<and> (\<exists>m. build_life_table negative_rate_input = Inl (ValueError m)) \<and>
   \<not> invalid_input example_input \<and> (\<exists>t. build_life_table example_input = Inr t \<and> full_table 3 t)"
proof -
  have a: "invalid_input negative_rate_input" by (simp add: negative_rate_input_def invalid_input_def)
  have b: "\<not> invalid_input example_input" by (simp add: example_input_def invalid_input_def)
  have c: "length (LifeTableInput.mx example_input) = 3" by (simp add: example_input_def)
  show ?thesis
    using a b build_life_table_validation [of negative_rate_input] build_life_table_validation [of example_input]
    unfolding c by blast
qed

section \<open>The columns\<close>

lemma qx_value_range: "0 \<le> qx_value width rate a \<and> qx_value width rate a \<le> 1"
  by (simp add: qx_value_def Let_def split: option.splits)

lemma qx_col_nth:
  "i < length (qx_col ns m a) \<Longrightarrow> qx_col ns m a ! i = qx_value (ns ! i) (m ! i) (a ! i)"
  by (simp add: qx_col_def)

lemma lx_loop_nth_old: "i < length l \<Longrightarrow> lx_loop l ps ! i = l ! i"
  by (induction ps arbitrary: l) (auto simp: nth_append)

lemma lx_loop_step:
  "l \<noteq> [] \<Longrightarrow> k < length ps \<Longrightarrow>
     lx_loop l ps ! (length l + k) = lx_loop l ps ! (length l + k - 1) * ps ! k"
proof (induction ps arbitrary: l k)
  case Nil
  then show ?case by simp
next
  case (Cons p ps)
  let ?l = "l @ [last l * p]"
  show ?case
  proof (cases k)
    case 0
    have "lx_loop ?l ps ! length l = ?l ! length l"
      by (rule lx_loop_nth_old) simp
    moreover have "lx_loop ?l ps ! (length l - 1) = ?l ! (length l - 1)"
      using Cons.prems(1) by (intro lx_loop_nth_old) simp
    moreover have "?l ! (length l - 1) = last l"
      using Cons.prems(1) by (simp add: nth_append last_conv_nth)
    ultimately show ?thesis using 0 by simp
  next
    case (Suc k')
    with Cons.prems have "k' < length ps" by simp
    from Cons.IH [of ?l k', OF _ this] show ?thesis using Suc by simp
  qed
qed

lemma lx_col_head: "lx_loop [r] ps ! 0 = r"
  by (simp add: lx_loop_nth_old)

lemma lx_col_step:
  "i < length ps \<Longrightarrow> lx_loop [r] ps ! Suc i = lx_loop [r] ps ! i * ps ! i"
  using lx_loop_step [of "[r]" i ps] by simp

lemma lx_col_nonneg:
  "0 \<le> r \<Longrightarrow> \<forall>p \<in> set ps. 0 \<le> p \<Longrightarrow> i \<le> length ps \<Longrightarrow> 0 \<le> lx_loop [r] ps ! i"
proof (induction i)
  case 0
  then show ?case by (simp add: lx_col_head)
next
  case (Suc i)
  then have "0 \<le> lx_loop [r] ps ! i" and "0 \<le> ps ! i" by auto
  then show ?case using Suc.prems by (simp add: lx_col_step)
qed

lemma lx_col_mono:
  assumes "0 \<le> r" and "\<forall>p \<in> set ps. 0 \<le> p \<and> p \<le> 1" and "i < length ps"
  shows "lx_loop [r] ps ! Suc i \<le> lx_loop [r] ps ! i"
proof -
  have "0 \<le> lx_loop [r] ps ! i" using assms by (intro lx_col_nonneg) auto
  moreover have "ps ! i \<le> 1" using assms by auto
  ultimately have "lx_loop [r] ps ! i * ps ! i \<le> lx_loop [r] ps ! i"
    by (simp add: mult_left_le)
  then show ?thesis using assms(3) by (simp add: lx_col_step)
qed

subsection \<open>The tables of the examples\<close>

lemma build_life_table_eval:
  assumes "validate_inputs data = Inr ()"
    and "\<not> list_ex (\<lambda>rate. rate < 0) (LifeTableInput.mx data)"
    and "(case LifeTableInput.ax data of
            Some ax_list \<Rightarrow> ax_list
          | None \<Rightarrow> compute_ax (LifeTableInput.age_lower data)
                      (LifeTableInput.age_upper data) (LifeTableInput.mx data)) = av"
    and "n_col (LifeTableInput.age_lower data) (LifeTableInput.age_upper data) = nv"
    and "qx_col nv (LifeTableInput.mx data) av = qv"
    and "map (\<lambda>value. 1 - value) qv = pv"
    and "lx_loop [LifeTableInput.radix data] (butlast pv) = lv"
    and "map (\<lambda>(l, q). l * q) (zip lv qv) = dv"
    and "Lx_col nv lv dv av (LifeTableInput.mx data) = Lv"
    and "Tx_col Lv = Inr Tv"
    and "ex_col Tv lv = ev"
  shows "build_life_table data =
     Inr \<lparr>LifeTable.age_lower = LifeTableInput.age_lower data,
          age_upper = LifeTableInput.age_upper data, n = nv,
          mx = LifeTableInput.mx data, ax = av, qx = qv, px = pv, lx = lv, dx = dv,
          Lx = Lv, Tx = Tv, ex = ev\<rparr>"
  using assms by (simp add: build_life_table_def Let_def)

lemma build_example_input: "build_life_table example_input = Inr example_table"
proof -
  have "build_life_table example_input =
     Inr \<lparr>LifeTable.age_lower = LifeTableInput.age_lower example_input,
          age_upper = LifeTableInput.age_upper example_input, n = n example_table,
          mx = LifeTableInput.mx example_input, ax = LifeTable.ax example_table,
          qx = qx example_table, px = px example_table, lx = lx example_table,
          dx = dx example_table, Lx = Lx example_table, Tx = Tx example_table,
          ex = ex example_table\<rparr>"
  proof (rule build_life_table_eval)
    show "validate_inputs example_input = Inr ()"
      by (simp add: validate_inputs_def example_input_def)
    show "\<not> list_ex (\<lambda>rate. rate < 0) (LifeTableInput.mx example_input)"
      by (simp add: example_input_def)
    show "(case LifeTableInput.ax example_input of
            Some ax_list \<Rightarrow> ax_list
          | None \<Rightarrow> compute_ax (LifeTableInput.age_lower example_input)
                      (LifeTableInput.age_upper example_input) (LifeTableInput.mx example_input)) = LifeTable.ax example_table"
      by (simp add: example_input_def example_table_def compute_ax_def)
    show "n_col (LifeTableInput.age_lower example_input) (LifeTableInput.age_upper example_input) = n example_table"
      by (simp add: example_input_def example_table_def n_col_def)
    show "qx_col (n example_table) (LifeTableInput.mx example_input) (LifeTable.ax example_table) = qx example_table"
      by (simp add: example_input_def example_table_def qx_col_def qx_value_def)
    show "map (\<lambda>value. 1 - value) (qx example_table) = px example_table"
      by (simp add: example_table_def)
    show "lx_loop [LifeTableInput.radix example_input] (butlast (px example_table)) = lx example_table"
      by (simp add: example_input_def example_table_def default_radix_def)
    show "map (\<lambda>(l, q). l * q) (zip (lx example_table) (qx example_table)) = dx example_table"
      by (simp add: example_table_def)
    show "Lx_col (n example_table) (lx example_table) (dx example_table) (LifeTable.ax example_table) (LifeTableInput.mx example_input) = Lx example_table"
      by (simp add: example_input_def example_table_def Lx_col_def Lx_value_def)
    show "Tx_col (Lx example_table) = Inr (Tx example_table)"
      by (simp add: example_table_def Tx_col_def)
    show "ex_col (Tx example_table) (lx example_table) = ex example_table"
      by (simp add: example_table_def ex_col_def)
  qed
  then show ?thesis by (simp add: example_input_def example_table_def)
qed


lemmas build_defs =
  build_life_table_def validate_inputs_def compute_ax_def n_col_def qx_col_def qx_value_def
  Lx_col_def Lx_value_def Tx_col_def ex_col_def Let_def default_radix_def

lemma build_negative_radix_input:
  "build_life_table negative_radix_input = Inr negative_radix_table"
  by (simp add: build_defs negative_radix_input_def negative_radix_table_def)

lemma build_zero_denominator_input:
  "build_life_table zero_denominator_input = Inr zero_denominator_table"
  by (simp add: build_defs zero_denominator_input_def zero_denominator_table_def)

lemma build_decreasing_lower_input:
  "build_life_table decreasing_lower_input = Inr decreasing_lower_table"
  by (simp add: build_defs decreasing_lower_input_def decreasing_lower_table_def)

section \<open>The claims about life tables\<close>

text \<open>
  Claim C5. For every input that \<open>build_life_table\<close> accepts, the table satisfies
  \<open>dx[i] = lx[i] * qx[i]\<close> for every \<open>i\<close> and \<open>lx[i+1] = lx[i] * (1 - qx[i])\<close> for every
  \<open>i\<close> below the last. Both sides are the same expression of the same operands in the
  code, so the equalities do not depend on how the products are rounded.
\<close>

theorem build_life_table_round_trip:
  assumes "build_life_table data = Inr t"
  shows "(\<forall>i < length (dx t). dx t ! i = lx t ! i * qx t ! i) \<and>
         (\<forall>i. Suc i < length (lx t) \<longrightarrow> lx t ! Suc i = lx t ! i * (1 - qx t ! i))"
proof (intro conjI allI impI)
  note b = build_life_table_Inr [OF assms]
  fix i assume "i < length (dx t)"
  then show "dx t ! i = lx t ! i * qx t ! i"
    by (simp add: b(11))
next
  note b = build_life_table_Inr [OF assms]
  note f = build_life_table_full [OF assms]
  fix i assume i: "Suc i < length (lx t)"
  with f have ip: "i < length (butlast (px t))" and iq: "i < length (qx t)"
    by (simp_all add: full_table_def)
  have "lx t ! Suc i = lx t ! i * butlast (px t) ! i"
    unfolding b(10) by (rule lx_col_step [OF ip])
  also have "butlast (px t) ! i = px t ! i"
    using ip by (simp add: nth_butlast)
  also have "px t ! i = 1 - qx t ! i"
    using iq by (simp add: b(9))
  finally show "lx t ! Suc i = lx t ! i * (1 - qx t ! i)" .
qed

theorem build_life_table_round_trip_witness:
  "build_life_table example_input = Inr example_table \<and>
   dx example_table ! 1 = lx example_table ! 1 * qx example_table ! 1 \<and>
   lx example_table ! 2 = lx example_table ! 1 * (1 - qx example_table ! 1)"
proof -
  have "(1::nat) < length (dx example_table)" "Suc 1 < length (lx example_table)"
    by (simp_all add: example_table_def)
  with build_life_table_round_trip [OF build_example_input] build_example_input
  show ?thesis by (metis Suc_1)
qed


lemma qx_range:
  assumes "build_life_table data = Inr t" and "i < length (qx t)"
  shows "0 \<le> qx t ! i" and "qx t ! i \<le> 1"
  using assms(2) qx_value_range
  unfolding build_life_table_Inr(8) [OF assms(1)] by (simp_all add: qx_col_nth)

lemma px_range:
  assumes "build_life_table data = Inr t" and "p \<in> set (px t)"
  shows "0 \<le> p \<and> p \<le> 1"
proof -
  from assms(2) obtain i where i: "i < length (qx t)" and p: "p = 1 - qx t ! i"
    unfolding build_life_table_Inr(9) [OF assms(1)] by (auto simp: in_set_conv_nth)
  from qx_range [OF assms(1) i] p show ?thesis by simp
qed

text \<open>
  Claim C4, amended. For every input that \<open>build_life_table\<close> accepts, \<open>lx[0]\<close> is the
  radix; if the radix is not negative, \<open>lx[i+1] \<le> lx[i]\<close> for every \<open>i\<close>. The radix is not
  validated, and with a negative radix the column increases.
\<close>

theorem build_life_table_lx_nonincreasing:
  assumes "build_life_table data = Inr t"
  shows "lx t ! 0 = LifeTableInput.radix data \<and>
         (0 \<le> LifeTableInput.radix data \<longrightarrow>
            (\<forall>i. Suc i < length (lx t) \<longrightarrow> lx t ! Suc i \<le> lx t ! i))"
proof (intro conjI allI impI)
  show "lx t ! 0 = LifeTableInput.radix data"
    by (simp add: build_life_table_Inr(10) [OF assms] lx_col_head)
next
  fix i assume r: "0 \<le> LifeTableInput.radix data" and i: "Suc i < length (lx t)"
  have "i < length (butlast (px t))"
    using i build_life_table_full [OF assms] by (simp add: full_table_def)
  moreover have "\<forall>p \<in> set (butlast (px t)). 0 \<le> p \<and> p \<le> 1"
    using px_range [OF assms] by (auto dest: in_set_butlastD)
  ultimately show "lx t ! Suc i \<le> lx t ! i"
    unfolding build_life_table_Inr(10) [OF assms] using r by (intro lx_col_mono)
qed

theorem build_life_table_lx_nonincreasing_witness:
  "build_life_table example_input = Inr example_table \<and>
   0 \<le> LifeTableInput.radix example_input \<and>
   lx example_table ! 0 = LifeTableInput.radix example_input \<and>
   lx example_table ! 2 \<le> lx example_table ! 1"
proof -
  have r: "0 \<le> LifeTableInput.radix example_input"
    by (simp add: example_input_def default_radix_def)
  have "Suc 1 < length (lx example_table)"
    by (simp add: example_table_def)
  with r build_life_table_lx_nonincreasing [OF build_example_input] build_example_input
  show ?thesis by (metis Suc_1)
qed

text \<open>
  With radix \<open>-8\<close> and \<open>qx[0] = 1/2\<close> the column is \<open>[-8, -4]\<close>: \<open>lx[1] > lx[0]\<close>.
\<close>

theorem lx_increases_for_negative_radix:
  "build_life_table negative_radix_input = Inr negative_radix_table \<and>
   \<not> lx negative_radix_table ! 1 \<le> lx negative_radix_table ! 0"
  using build_negative_radix_input by (simp add: negative_radix_table_def)


lemma n_col_nth:
  "i < length al \<Longrightarrow> i < length au \<Longrightarrow>
     n_col al au ! i = (case au ! i of None \<Rightarrow> None | Some h \<Rightarrow> Some (h - al ! i))"
  by (simp add: n_col_def)

lemma open_interval_is_last:
  assumes "build_life_table data = Inr t" and "i < length (LifeTable.age_upper t)"
    and "LifeTable.age_upper t ! i = None"
  shows "Suc i = length (LifeTable.age_upper t)"
proof (rule ccontr)
  assume "Suc i \<noteq> length (LifeTable.age_upper t)"
  with assms(2) have "i < length (butlast (LifeTable.age_upper t))" by simp
  with assms(3) have "None \<in> set (butlast (LifeTable.age_upper t))"
    by (metis nth_butlast nth_mem)
  moreover have "\<not> list_ex (\<lambda>high. high = None) (butlast (LifeTable.age_upper t))"
    using build_life_table_Inr(1,4) [OF assms(1)] by (simp add: validate_inputs_Inr_iff)
  ultimately show False by (simp add: list_ex_iff)
qed

text \<open>
  Claim C3, amended. For every input that \<open>build_life_table\<close> accepts, every \<open>qx\<close> value
  lies in \<open>[0, 1]\<close>; for a closed interval it is \<open>n * m / (1 + (n - a) * m)\<close> clamped to
  \<open>[0, 1]\<close> when the denominator is not zero, and \<open>1\<close> when it is zero; an open interval is
  the last one and its \<open>qx\<close> is \<open>1\<close>.
\<close>

theorem build_life_table_qx:
  assumes "build_life_table data = Inr t"
  shows "\<forall>i < length (qx t).
           0 \<le> qx t ! i \<and> qx t ! i \<le> 1 \<and>
           (case n t ! i of
              None \<Rightarrow> Suc i = length (qx t) \<and> qx t ! i = 1
            | Some w \<Rightarrow>
                qx t ! i =
                  (if 1 + (w - LifeTable.ax t ! i) * LifeTable.mx t ! i = 0 then 1
                   else max 0 (min 1 (w * LifeTable.mx t ! i /
                                        (1 + (w - LifeTable.ax t ! i) * LifeTable.mx t ! i)))))"
proof (intro allI impI conjI)
  fix i assume i: "i < length (qx t)"
  note b = build_life_table_Inr [OF assms]
  have f: "full_table (length (LifeTableInput.mx data)) t"
    by (rule build_life_table_full [OF assms])
  show "0 \<le> qx t ! i" and "qx t ! i \<le> 1"
    using qx_range [OF assms i] by simp_all
  have q: "qx t ! i = qx_value (n t ! i) (LifeTable.mx t ! i) (LifeTable.ax t ! i)"
    using i unfolding b(8) by (simp add: qx_col_nth)
  show "case n t ! i of
          None \<Rightarrow> Suc i = length (qx t) \<and> qx t ! i = 1
        | Some w \<Rightarrow>
            qx t ! i =
              (if 1 + (w - LifeTable.ax t ! i) * LifeTable.mx t ! i = 0 then 1
               else max 0 (min 1 (w * LifeTable.mx t ! i /
                                    (1 + (w - LifeTable.ax t ! i) * LifeTable.mx t ! i))))"
  proof (cases "n t ! i")
    case None
    have iu: "i < length (LifeTable.age_upper t)" "i < length (LifeTable.age_lower t)"
      using i f by (simp_all add: full_table_def)
    with None have "LifeTable.age_upper t ! i = None"
      unfolding b(7) b(3) [symmetric] b(4) [symmetric]
      by (simp add: n_col_nth split: option.splits)
    from open_interval_is_last [OF assms iu(1) this] f
    have "Suc i = length (qx t)" by (simp add: full_table_def)
    with None q show ?thesis by (simp add: qx_value_def)
  next
    case (Some w)
    with q show ?thesis by (simp add: qx_value_def Let_def)
  qed
qed

theorem build_life_table_qx_witness:
  "build_life_table example_input = Inr example_table \<and>
   0 \<le> qx example_table ! 1 \<and> qx example_table ! 1 \<le> 1 \<and>
   qx example_table ! 1 = max 0 (min 1 (4 * (1 / 1250) / (1 + (4 - 2) * (1 / 1250)))) \<and>
   qx example_table ! 2 = 1 \<and>
   build_life_table zero_denominator_input = Inr zero_denominator_table \<and>
   qx zero_denominator_table ! 0 = 1"
proof -
  have l: "1 < length (qx example_table)" "2 < length (qx example_table)"
    "0 < length (qx zero_denominator_table)"
    by (simp_all add: example_table_def zero_denominator_table_def)
  note T = build_life_table_qx [OF build_example_input, rule_format]
  note Z = build_life_table_qx [OF build_zero_denominator_input, rule_format, OF l(3)]
  from T [OF l(1)] have "0 \<le> qx example_table ! 1 \<and> qx example_table ! 1 \<le> 1 \<and>
      qx example_table ! 1 = max 0 (min 1 (4 * (1 / 1250) / (1 + (4 - 2) * (1 / 1250))))"
    by (simp add: example_table_def)
  moreover from T [OF l(2)] have "qx example_table ! 2 = 1"
    by (simp add: example_table_def)
  moreover from Z have "qx zero_denominator_table ! 0 = 1"
    by (simp add: zero_denominator_table_def)
  ultimately show ?thesis
    using build_example_input build_zero_denominator_input by simp
qed

text \<open>
  With \<open>n = 1\<close>, \<open>a = 2\<close> and \<open>m = 1\<close> the denominator is zero and the code takes
  \<open>qx = 1\<close>; the quotient of the formula has no value there (the total division of HOL
  makes it \<open>0\<close>).
\<close>

theorem qx_is_one_at_zero_denominator:
  "build_life_table zero_denominator_input = Inr zero_denominator_table \<and>
   n zero_denominator_table ! 0 = Some 1 \<and>
   1 + (1 - LifeTable.ax zero_denominator_table ! 0) * LifeTable.mx zero_denominator_table ! 0 = 0 \<and>
   qx zero_denominator_table ! 0 = 1 \<and>
   qx zero_denominator_table ! 0 \<noteq>
     max 0 (min 1 (1 * LifeTable.mx zero_denominator_table ! 0 /
       (1 + (1 - LifeTable.ax zero_denominator_table ! 0) * LifeTable.mx zero_denominator_table ! 0)))"
  using build_zero_denominator_input by (simp add: zero_denominator_table_def)


text \<open>
  Claim C6, amended. Of the invariant of the age partition, \<open>build_life_table\<close> enforces
  the bound of each row: an input in which some defined \<open>age_upper[i]\<close> does not exceed
  \<open>age_lower[i]\<close> fails with a \<open>ValueError\<close> and gives no table, so that in every table
  returned each defined upper bound exceeds its lower bound. That \<open>age_lower\<close> increases
  from row to row is not checked.
\<close>

theorem build_life_table_checks_rows_only:
  "(list_ex (\<lambda>(low, high). case high of None \<Rightarrow> False | Some h \<Rightarrow> h \<le> low)
      (zip (LifeTableInput.age_lower data) (LifeTableInput.age_upper data)) \<longrightarrow>
      (\<exists>m. build_life_table data = Inl (ValueError m))) \<and>
   (\<forall>t. build_life_table data = Inr t \<longrightarrow>
      (\<forall>i < length (LifeTable.age_lower t). \<forall>h.
         LifeTable.age_upper t ! i = Some h \<longrightarrow> LifeTable.age_lower t ! i < h))"
proof (intro conjI impI allI)
  assume bad: "list_ex (\<lambda>(low, high). case high of None \<Rightarrow> False | Some h \<Rightarrow> h \<le> low)
      (zip (LifeTableInput.age_lower data) (LifeTableInput.age_upper data))"
  then have nv: "validate_inputs data \<noteq> Inr ()"
    by (simp add: validate_inputs_Inr_iff list_all_bounds_iff)
  then obtain e where e: "validate_inputs data = Inl e"
    by (cases "validate_inputs data") auto
  from validate_inputs_Inl [OF e] e
  show "\<exists>m. build_life_table data = Inl (ValueError m)"
    by (auto simp: build_life_table_def)
next
  fix t i h
  assume t: "build_life_table data = Inr t" and i: "i < length (LifeTable.age_lower t)"
    and h: "LifeTable.age_upper t ! i = Some h"
  note b = build_life_table_Inr [OF t]
  from b(1) have "list_all (\<lambda>(low, high). case high of None \<Rightarrow> True | Some h \<Rightarrow> low < h)
       (zip (LifeTable.age_lower t) (LifeTable.age_upper t))"
    and len: "length (LifeTable.age_lower t) = length (LifeTable.age_upper t)"
    unfolding b(3) b(4) by (simp_all add: validate_inputs_Inr_iff)
  then have "\<forall>j < length (zip (LifeTable.age_lower t) (LifeTable.age_upper t)).
      (case zip (LifeTable.age_lower t) (LifeTable.age_upper t) ! j of
         (low, high) \<Rightarrow> case high of None \<Rightarrow> True | Some h \<Rightarrow> low < h)"
    by (simp add: list_all_length)
  with i len h show "LifeTable.age_lower t ! i < h" by force
qed

theorem build_life_table_checks_rows_only_witness:
  "list_ex (\<lambda>(low, high). case high of None \<Rightarrow> False | Some h \<Rightarrow> h \<le> low)
      (zip (LifeTableInput.age_lower inverted_row_input)
         (LifeTableInput.age_upper inverted_row_input)) \<and>
   (\<exists>m. build_life_table inverted_row_input = Inl (ValueError m)) \<and>
   build_life_table decreasing_lower_input = Inr decreasing_lower_table \<and>
   LifeTable.age_upper decreasing_lower_table ! 0 = Some 10 \<and>
   LifeTable.age_lower decreasing_lower_table ! 0 < 10"
proof -
  have a: "list_ex (\<lambda>(low, high). case high of None \<Rightarrow> False | Some h \<Rightarrow> h \<le> low)
      (zip (LifeTableInput.age_lower inverted_row_input)
         (LifeTableInput.age_upper inverted_row_input))"
    by (simp add: inverted_row_input_def)
  have b: "0 < length (LifeTable.age_lower decreasing_lower_table)"
    "LifeTable.age_upper decreasing_lower_table ! 0 = Some 10"
    by (simp_all add: decreasing_lower_table_def)
  show ?thesis
    using a b build_decreasing_lower_input
      build_life_table_checks_rows_only [of inverted_row_input]
      build_life_table_checks_rows_only [of decreasing_lower_input]
    by blast
qed

text \<open>
  The lower bounds \<open>[5, 0]\<close> are not increasing, and a table is returned.
\<close>

theorem decreasing_age_lower_accepted:
  "\<not> sorted_wrt (<) (LifeTableInput.age_lower decreasing_lower_input) \<and>
   build_life_table decreasing_lower_input = Inr decreasing_lower_table"
  using build_decreasing_lower_input by (simp add: decreasing_lower_input_def)

text \<open>
  Claim C8. When \<open>ax\<close> is omitted, the table's \<open>ax\<close> is \<open>(age_upper - age_lower) / 2\<close> for
  every closed interval and \<open>1 / max(mx, 1e-12)\<close> for the open interval, which is the last
  one; a supplied \<open>ax\<close> is the table's \<open>ax\<close> unchanged.
\<close>

theorem build_life_table_ax:
  assumes "build_life_table data = Inr t"
  shows "(case LifeTableInput.ax data of
            Some ax_list \<Rightarrow> LifeTable.ax t = ax_list
          | None \<Rightarrow>
              length (LifeTable.ax t) = length (LifeTableInput.mx data) \<and>
              (\<forall>i < length (LifeTable.ax t).
                 LifeTable.ax t ! i =
                   (case LifeTableInput.age_upper data ! i of
                      Some high \<Rightarrow> (high - LifeTableInput.age_lower data ! i) / 2
                    | None \<Rightarrow> 1 / max (LifeTableInput.mx data ! i) (1 / 10 ^ 12)) \<and>
                 (LifeTableInput.age_upper data ! i = None \<longrightarrow>
                    Suc i = length (LifeTable.ax t))))"
proof (cases "LifeTableInput.ax data")
  case (Some ax_list)
  then show ?thesis using build_life_table_Inr(6) [OF assms] by simp
next
  case None
  note b = build_life_table_Inr [OF assms]
  have f: "full_table (length (LifeTableInput.mx data)) t"
    by (rule build_life_table_full [OF assms])
  have ax: "LifeTable.ax t = compute_ax (LifeTableInput.age_lower data)
      (LifeTableInput.age_upper data) (LifeTableInput.mx data)"
    using None b(6) by simp
  have "LifeTable.ax t ! i =
          (case LifeTableInput.age_upper data ! i of
             Some high \<Rightarrow> (high - LifeTableInput.age_lower data ! i) / 2
           | None \<Rightarrow> 1 / max (LifeTableInput.mx data ! i) (1 / 10 ^ 12)) \<and>
        (LifeTableInput.age_upper data ! i = None \<longrightarrow> Suc i = length (LifeTable.ax t))"
    if i: "i < length (LifeTable.ax t)" for i
  proof
    from i have "i < length (zip (LifeTableInput.age_lower data)
        (zip (LifeTableInput.age_upper data) (LifeTableInput.mx data)))"
      unfolding ax by (simp add: compute_ax_def)
    then show "LifeTable.ax t ! i =
          (case LifeTableInput.age_upper data ! i of
             Some high \<Rightarrow> (high - LifeTableInput.age_lower data ! i) / 2
           | None \<Rightarrow> 1 / max (LifeTableInput.mx data ! i) (1 / 10 ^ 12))"
      unfolding ax compute_ax_def by (simp split: option.splits)
    have "i < length (LifeTable.age_upper t)"
      using i f by (simp add: full_table_def)
    from open_interval_is_last [OF assms this] f
    show "LifeTableInput.age_upper data ! i = None \<longrightarrow> Suc i = length (LifeTable.ax t)"
      by (simp add: b(4) full_table_def)
  qed
  moreover have "length (LifeTable.ax t) = length (LifeTableInput.mx data)"
    using f by (simp add: full_table_def)
  ultimately show ?thesis using None by simp
qed

theorem build_life_table_ax_witness:
  "build_life_table example_input = Inr example_table \<and>
   LifeTableInput.ax example_input = None \<and>
   LifeTable.ax example_table ! 1 = (5 - 1) / 2 \<and>
   LifeTable.ax example_table ! 2 = 1 / max (2 / 100) (1 / 10 ^ 12) \<and>
   build_life_table negative_radix_input = Inr negative_radix_table \<and>
   LifeTableInput.ax negative_radix_input = Some [1, 2] \<and>
   LifeTable.ax negative_radix_table = [1, 2]"
proof -
  have a: "LifeTableInput.ax example_input = None"
    "LifeTableInput.ax negative_radix_input = Some [1, 2]"
    by (simp_all add: example_input_def negative_radix_input_def)
  have l: "1 < length (LifeTable.ax example_table)" "2 < length (LifeTable.ax example_table)"
    by (simp_all add: example_table_def)
  have "LifeTable.ax negative_radix_table = [1, 2]"
    using build_life_table_ax [OF build_negative_radix_input] a(2) by simp
  moreover have "\<forall>i < length (LifeTable.ax example_table).
     LifeTable.ax example_table ! i =
       (case LifeTableInput.age_upper example_input ! i of
          Some high \<Rightarrow> (high - LifeTableInput.age_lower example_input ! i) / 2
        | None \<Rightarrow> 1 / max (LifeTableInput.mx example_input ! i) (1 / 10 ^ 12))"
    using build_life_table_ax [OF build_example_input] a(1) by simp
  with l have "LifeTable.ax example_table ! 1 =
       (case LifeTableInput.age_upper example_input ! 1 of
          Some high \<Rightarrow> (high - LifeTableInput.age_lower example_input ! 1) / 2
        | None \<Rightarrow> 1 / max (LifeTableInput.mx example_input ! 1) (1 / 10 ^ 12))"
     "LifeTable.ax example_table ! 2 =
       (case LifeTableInput.age_upper example_input ! 2 of
          Some high \<Rightarrow> (high - LifeTableInput.age_lower example_input ! 2) / 2
        | None \<Rightarrow> 1 / max (LifeTableInput.mx example_input ! 2) (1 / 10 ^ 12))"
    by blast+
  then have "LifeTable.ax example_table ! 1 = (5 - 1) / 2"
    "LifeTable.ax example_table ! 2 = 1 / max (2 / 100) (1 / 10 ^ 12)"
    by (simp_all add: example_input_def)
  ultimately show ?thesis
    using a build_example_input build_negative_radix_input by simp
qed

section \<open>The decomposition loop\<close>

lemma numeric_gradient_loop_ok:
  assumes "\<forall>idx \<in> set idxs. idx < length v"
    and "\<forall>idx \<in> set idxs. defined_at func (v[idx := v ! idx + h]) \<and>
           defined_at func (v[idx := v ! idx - h])"
  shows "numeric_gradient_loop func v h idxs acc =
     Inr (acc @ map (\<lambda>idx. (value_at func (v[idx := v ! idx + h]) -
                             value_at func (v[idx := v ! idx - h])) / (2 * h)) idxs)"
  using assms
proof (induction idxs arbitrary: acc)
  case Nil
  then show ?case by simp
next
  case (Cons idx idxs)
  from Cons.prems have i: "idx < length v" by simp
  then have down: "(v[idx := v ! idx + h])[idx := v[idx := v ! idx + h] ! idx - 2 * h] =
      v[idx := v ! idx - h]" by simp
  from Cons.prems obtain u l where u: "func (v[idx := v ! idx + h]) = Inr u"
    and l: "func (v[idx := v ! idx - h]) = Inr l"
    by (auto simp: defined_at_def split: sum.splits)
  have "numeric_gradient_loop func v h (idx # idxs) acc =
      numeric_gradient_loop func v h idxs (acc @ [(u - l) / (2 * h)])"
    using u l i by (simp add: Let_def)
  also have "\<dots> = Inr ((acc @ [(u - l) / (2 * h)]) @
      map (\<lambda>idx. (value_at func (v[idx := v ! idx + h]) -
                   value_at func (v[idx := v ! idx - h])) / (2 * h)) idxs)"
    using Cons.prems by (intro Cons.IH) auto
  finally show ?case using u l by (simp add: value_at_def)
qed


lemma numeric_gradient_ok:
  assumes "\<forall>i < length v. defined_at func (v[i := v ! i + gradient_step]) \<and>
           defined_at func (v[i := v ! i - gradient_step])"
  shows "numeric_gradient func v gradient_step = Inr (map (gradient_spec func v) [0..<length v])"
  unfolding numeric_gradient_def gradient_spec_def
  using assms by (subst numeric_gradient_loop_ok) auto


lemma accumulate_enumerate:
  "k + length zs \<le> length cs \<Longrightarrow>
   accumulate steps (enumerate k zs) cs =
     map (\<lambda>i. if k \<le> i \<and> i < k + length zs
               then cs ! i + fst (zs ! (i - k)) * snd (zs ! (i - k)) / real_of_int steps
               else cs ! i) [0..<length cs]"
proof (induction zs arbitrary: k cs)
  case Nil
  then show ?case by (intro nth_equalityI) auto
next
  case (Cons z zs)
  obtain g d where z: "z = (g, d)" by (cases z)
  let ?cs = "cs[k := cs ! k + g * d / real_of_int steps]"
  have "accumulate steps (enumerate k (z # zs)) cs = accumulate steps (enumerate (Suc k) zs) ?cs"
    by (simp add: z)
  also have "\<dots> = map (\<lambda>i. if Suc k \<le> i \<and> i < Suc k + length zs
               then ?cs ! i + fst (zs ! (i - Suc k)) * snd (zs ! (i - Suc k)) / real_of_int steps
               else ?cs ! i) [0..<length ?cs]"
    using Cons.prems by (intro Cons.IH) simp
  also have "\<dots> = map (\<lambda>i. if k \<le> i \<and> i < k + length (z # zs)
               then cs ! i + fst ((z # zs) ! (i - k)) * snd ((z # zs) ! (i - k)) / real_of_int steps
               else cs ! i) [0..<length cs]"
  proof (intro nth_equalityI)
    show "length (map (\<lambda>i. if Suc k \<le> i \<and> i < Suc k + length zs
               then ?cs ! i + fst (zs ! (i - Suc k)) * snd (zs ! (i - Suc k)) / real_of_int steps
               else ?cs ! i) [0..<length ?cs]) =
          length (map (\<lambda>i. if k \<le> i \<and> i < k + length (z # zs)
               then cs ! i + fst ((z # zs) ! (i - k)) * snd ((z # zs) ! (i - k)) / real_of_int steps
               else cs ! i) [0..<length cs])" by simp
  next
    fix i
    assume "i < length (map (\<lambda>i. if Suc k \<le> i \<and> i < Suc k + length zs
               then ?cs ! i + fst (zs ! (i - Suc k)) * snd (zs ! (i - Suc k)) / real_of_int steps
               else ?cs ! i) [0..<length ?cs])"
    then have i: "i < length cs" by simp
    consider "i < k" | "i = k" | "k < i" by linarith
    then show "map (\<lambda>i. if Suc k \<le> i \<and> i < Suc k + length zs
               then ?cs ! i + fst (zs ! (i - Suc k)) * snd (zs ! (i - Suc k)) / real_of_int steps
               else ?cs ! i) [0..<length ?cs] ! i =
          map (\<lambda>i. if k \<le> i \<and> i < k + length (z # zs)
               then cs ! i + fst ((z # zs) ! (i - k)) * snd ((z # zs) ! (i - k)) / real_of_int steps
               else cs ! i) [0..<length cs] ! i"
    proof cases
      case 1
      then show ?thesis using i by simp
    next
      case 2
      then show ?thesis using i by (simp add: z)
    next
      case 3
      then have "i - k = Suc (i - Suc k)" by simp
      then have "(z # zs) ! (i - k) = zs ! (i - Suc k)" by simp
      then show ?thesis using i 3 by simp
    qed
  qed
  finally show ?case .
qed

lemma accumulate_zip:
  assumes "length gs = length cs" and "length ds = length cs"
  shows "accumulate steps (enumerate 0 (zip gs ds)) cs =
     map (\<lambda>i. cs ! i + gs ! i * ds ! i / real_of_int steps) [0..<length cs]"
  using assms by (subst accumulate_enumerate) auto


lemma horiuchi_loop_ok:
  fixes baseline delta :: "real list" and steps :: int
  defines "mid \<equiv> \<lambda>j. map (\<lambda>(a, d). a + ((real j + 1 / 2) / real_of_int steps) * d)
                          (zip baseline delta)"
  assumes len: "length delta = length baseline" "length cs = length baseline"
    and ok: "\<forall>j \<in> set js. \<forall>i < length baseline.
               defined_at func ((mid j)[i := mid j ! i + gradient_step]) \<and>
               defined_at func ((mid j)[i := mid j ! i - gradient_step])"
  shows "horiuchi_loop func baseline delta steps js cs =
     Inr (map (\<lambda>i. cs ! i +
                 sum_list (map (\<lambda>j. gradient_spec func (mid j) i * delta ! i / real_of_int steps) js))
            [0..<length baseline])"
  using len(2) ok
proof (induction js arbitrary: cs)
  case Nil
  then have "cs = map (\<lambda>i. cs ! i) [0..<length baseline]"
    by (intro nth_equalityI) auto
  then show ?case by simp
next
  case (Cons j js)
  have lm: "length (mid j) = length baseline" using len(1) by (simp add: mid_def)
  have g: "numeric_gradient func (mid j) gradient_step =
      Inr (map (gradient_spec func (mid j)) [0..<length baseline])"
    using Cons.prems(2) lm numeric_gradient_ok [of "mid j" func] by simp
  let ?cs = "map (\<lambda>i. cs ! i + gradient_spec func (mid j) i * delta ! i / real_of_int steps)
               [0..<length baseline]"
  have acc: "accumulate steps
       (enumerate 0 (zip (map (gradient_spec func (mid j)) [0..<length baseline]) delta)) cs = ?cs"
    using len(1) Cons.prems(1)
    by (subst accumulate_zip) (auto intro!: nth_equalityI)
  have "horiuchi_loop func baseline delta steps (j # js) cs =
      horiuchi_loop func baseline delta steps js ?cs"
    using g acc by (simp add: mid_def Let_def)
  also have "\<dots> = Inr (map (\<lambda>i. ?cs ! i +
                 sum_list (map (\<lambda>j. gradient_spec func (mid j) i * delta ! i / real_of_int steps) js))
            [0..<length baseline])"
    using Cons.prems(2) by (intro Cons.IH) auto
  also have "\<dots> = Inr (map (\<lambda>i. cs ! i +
                 sum_list (map (\<lambda>j. gradient_spec func (mid j) i * delta ! i / real_of_int steps) (j # js)))
            [0..<length baseline])"
    by (intro arg_cong [where f = Inr] nth_equalityI) auto
  finally show ?case .
qed


lemma mx_step_code:
  assumes "length baseline = length comparison"
  shows "map (\<lambda>(a, d). a + ((real j + 1 / 2) / real_of_int steps) * d)
           (zip baseline (map (\<lambda>(a, b). b - a) (zip baseline comparison))) =
         mx_step_spec baseline comparison steps j"
  using assms unfolding mx_step_spec_def by (intro nth_equalityI) auto

lemma path_defined_iff:
  "path_defined func baseline comparison steps \<longleftrightarrow>
     (\<forall>j \<in> set [0..<nat steps]. \<forall>i < length baseline.
         defined_at func ((mx_step_spec baseline comparison steps j)
            [i := mx_step_spec baseline comparison steps j ! i + gradient_step]) \<and>
         defined_at func ((mx_step_spec baseline comparison steps j)
            [i := mx_step_spec baseline comparison steps j ! i - gradient_step]))"
  unfolding path_defined_def list_all_iff by auto

lemma horiuchi_decomposition_ok:
  assumes len: "length baseline = length comparison"
    and ok: "path_defined (\<lambda>values. life_expectancy_from_mx values al au axs)
               baseline comparison steps"
  shows "horiuchi_decomposition baseline comparison al au axs steps =
     Inr \<lparr>DecompositionResult.age_lower = al, age_upper = au,
          contribution =
            map (contribution_spec (\<lambda>values. life_expectancy_from_mx values al au axs)
                   baseline comparison steps) [0..<length baseline]\<rparr>"
proof -
  let ?func = "\<lambda>values. life_expectancy_from_mx values al au axs"
  let ?delta = "map (\<lambda>(a, b). b - a) (zip baseline comparison)"
  have ld: "length ?delta = length baseline" "length (map (\<lambda>_. 0::real) ?delta) = length baseline"
    using len by simp_all
  note L = horiuchi_loop_ok [where delta = ?delta and baseline = baseline and steps = steps
      and func = ?func and js = "[0..<nat steps]" and cs = "map (\<lambda>_. 0) ?delta",
      unfolded mx_step_code [OF len], OF ld ok [unfolded path_defined_iff]]
  have "map (\<lambda>i. map (\<lambda>_. 0) ?delta ! i +
                 sum_list (map (\<lambda>j. gradient_spec ?func (mx_step_spec baseline comparison steps j) i *
                    ?delta ! i / real_of_int steps) [0..<nat steps]))
            [0..<length baseline] =
        map (contribution_spec ?func baseline comparison steps) [0..<length baseline]"
    using len by (intro nth_equalityI) (simp_all add: contribution_spec_def)
  with L show ?thesis using len by (simp add: horiuchi_decomposition_def Let_def)
qed


section \<open>The life expectancy on the two small partitions\<close>

lemma Tx_col_two: "Tx_col [a, b] = Inr [b + a, b]"
  by (simp add: Tx_col_def)

lemma Tx_col_three: "Tx_col [a, b, c] = Inr [c + b + a, c + b, c]"
  by (simp add: Tx_col_def numeral_3_eq_3)

lemma radix_cancel:
  fixes R q M :: real
  assumes "R \<noteq> 0"
  shows "(R * (1 - q) / M + (1 * (R - R * q) + 1 / 2 * (R * q))) / R =
         (1 - q / 2) + (1 - q) / M"
proof -
  have "(R * (1 - q) / M + (1 * (R - R * q) + 1 / 2 * (R * q))) / R =
        (R * ((1 - q) / M) + R * (1 - q / 2)) / R"
    by (simp add: algebra_simps)
  also have "\<dots> = (1 - q) / M + (1 - q / 2)"
    using assms by (simp add: add_divide_distrib)
  finally show ?thesis by simp
qed

lemma life_expectancy_two_groups:
  assumes "0 \<le> m0" and "m0 \<le> 2" and "0 \<le> m1"
  shows "life_expectancy_from_mx [m0, m1] [0, 1] [Some 1, None] None =
           Inr (two_group_ex0 m0 m1)"
proof -
  let ?data = "\<lparr>LifeTableInput.age_lower = [0, 1], age_upper = [Some 1, None],
      mx = [m0, m1], ax = None, radix = default_radix\<rparr>"
  let ?q = "m0 / (1 + m0 / 2)"
  let ?M = "max m1 (1 / 10 ^ 12)"
  have q: "qx_col [Some 1, None] [m0, m1] [1 / 2, 1 / ?M] = [?q, 1]"
    using assms by (simp add: qx_col_def qx_value_def Let_def field_simps)
  have b: "build_life_table ?data =
     Inr \<lparr>LifeTable.age_lower = LifeTableInput.age_lower ?data,
          age_upper = LifeTableInput.age_upper ?data, n = [Some 1, None],
          mx = LifeTableInput.mx ?data, ax = [1 / 2, 1 / ?M], qx = [?q, 1],
          px = [1 - ?q, 0],
          lx = [default_radix, default_radix * (1 - ?q)],
          dx = [default_radix * ?q, default_radix * (1 - ?q)],
          Lx = [1 * (default_radix - default_radix * ?q) + 1 / 2 * (default_radix * ?q),
                default_radix * (1 - ?q) / ?M],
          Tx = [default_radix * (1 - ?q) / ?M +
                (1 * (default_radix - default_radix * ?q) + 1 / 2 * (default_radix * ?q)),
                default_radix * (1 - ?q) / ?M],
          ex = [(default_radix * (1 - ?q) / ?M +
                (1 * (default_radix - default_radix * ?q) + 1 / 2 * (default_radix * ?q))) /
                default_radix,
                if default_radix * (1 - ?q) \<noteq> 0
                then (default_radix * (1 - ?q) / ?M) / (default_radix * (1 - ?q)) else 0]\<rparr>"
  proof (rule build_life_table_eval)
    show "validate_inputs ?data = Inr ()" by (simp add: validate_inputs_def)
    show "\<not> list_ex (\<lambda>rate. rate < 0) (LifeTableInput.mx ?data)"
      using assms by simp
    show "(case LifeTableInput.ax ?data of Some ax_list \<Rightarrow> ax_list
          | None \<Rightarrow> compute_ax (LifeTableInput.age_lower ?data)
                      (LifeTableInput.age_upper ?data) (LifeTableInput.mx ?data)) =
          [1 / 2, 1 / ?M]"
      by (simp add: compute_ax_def)
    show "n_col (LifeTableInput.age_lower ?data) (LifeTableInput.age_upper ?data) =
          [Some 1, None]" by (simp add: n_col_def)
    show "qx_col [Some 1, None] (LifeTableInput.mx ?data) [1 / 2, 1 / ?M] = [?q, 1]"
      using q by simp
    show "map (\<lambda>value. 1 - value) [?q, 1] = [1 - ?q, 0]" by simp
    show "lx_loop [LifeTableInput.radix ?data] (butlast [1 - ?q, 0]) =
          [default_radix, default_radix * (1 - ?q)]" by simp
    show "map (\<lambda>(l, q). l * q) (zip [default_radix, default_radix * (1 - ?q)] [?q, 1]) =
          [default_radix * ?q, default_radix * (1 - ?q)]" by simp
    show "Lx_col [Some 1, None] [default_radix, default_radix * (1 - ?q)]
            [default_radix * ?q, default_radix * (1 - ?q)] [1 / 2, 1 / ?M]
            (LifeTableInput.mx ?data) =
          [1 * (default_radix - default_radix * ?q) + 1 / 2 * (default_radix * ?q),
                default_radix * (1 - ?q) / ?M]"
      by (simp add: Lx_col_def Lx_value_def)
    show "Tx_col [1 * (default_radix - default_radix * ?q) + 1 / 2 * (default_radix * ?q),
                default_radix * (1 - ?q) / ?M] =
          Inr [default_radix * (1 - ?q) / ?M +
                (1 * (default_radix - default_radix * ?q) + 1 / 2 * (default_radix * ?q)),
                default_radix * (1 - ?q) / ?M]"
      by (rule Tx_col_two)
    show "ex_col [default_radix * (1 - ?q) / ?M +
                (1 * (default_radix - default_radix * ?q) + 1 / 2 * (default_radix * ?q)),
                default_radix * (1 - ?q) / ?M]
            [default_radix, default_radix * (1 - ?q)] =
          [(default_radix * (1 - ?q) / ?M +
                (1 * (default_radix - default_radix * ?q) + 1 / 2 * (default_radix * ?q))) /
                default_radix,
                if default_radix * (1 - ?q) \<noteq> 0
                then (default_radix * (1 - ?q) / ?M) / (default_radix * (1 - ?q)) else 0]"
      by (simp add: ex_col_def default_radix_def)
  qed
  have M: "0 < ?M" by simp
  have pos: "0 < 2 + m0" using assms by simp
  have e1: "(default_radix * (1 - ?q) / ?M +
          (1 * (default_radix - default_radix * ?q) + 1 / 2 * (default_radix * ?q))) /
          default_radix = (1 - ?q / 2) + (1 - ?q) / ?M"
    by (rule radix_cancel) (simp add: default_radix_def)
  have e2: "1 - ?q / 2 = 2 / (2 + m0)"
    using pos by (simp add: field_simps)
  have e3: "1 - ?q = (2 - m0) / (2 + m0)"
    using pos by (simp add: field_simps)
  have "(1 - ?q / 2) + (1 - ?q) / ?M = two_group_ex0 m0 m1"
    by (simp only: e2 e3 two_group_ex0_def)
  with e1 have "(default_radix * (1 - ?q) / ?M +
          (1 * (default_radix - default_radix * ?q) + 1 / 2 * (default_radix * ?q))) /
          default_radix = two_group_ex0 m0 m1"
    by (rule trans)
  with b show ?thesis by (simp add: life_expectancy_from_mx_def)
qed

lemma radix_cancel_three:
  fixes R q0 q1 M :: real
  assumes "R \<noteq> 0"
  shows "(R * (1 - q0) * (1 - q1) / M +
          (4 * (R * (1 - q0) - R * (1 - q0) * q1) + 2 * (R * (1 - q0) * q1)) +
          (1 * (R - R * q0) + 1 / 2 * (R * q0))) / R =
         (1 - q0 / 2) + (1 - q0) * ((4 - 2 * q1) + (1 - q1) / M)"
proof -
  have "R * (1 - q0) * (1 - q1) / M +
          (4 * (R * (1 - q0) - R * (1 - q0) * q1) + 2 * (R * (1 - q0) * q1)) +
          (1 * (R - R * q0) + 1 / 2 * (R * q0)) =
        R * ((1 - q0 / 2) + (1 - q0) * ((4 - 2 * q1) + (1 - q1) / M))"
    by (simp add: algebra_simps)
  then show ?thesis using assms by simp
qed

lemma ex_col_three:
  "ex_col [t0, t1, t2] [l0, l1, l2] =
     [if l0 \<noteq> 0 then t0 / l0 else 0, if l1 \<noteq> 0 then t1 / l1 else 0,
      if l2 \<noteq> 0 then t2 / l2 else 0]"
  by (simp add: ex_col_def)

lemma life_expectancy_three_groups:
  assumes "0 \<le> m0" and "m0 \<le> 2" and "0 \<le> m1" and "m1 \<le> 1 / 2" and "0 \<le> m2"
  shows "life_expectancy_from_mx [m0, m1, m2] [0, 1, 5] [Some 1, Some 5, None] None =
           Inr (three_group_ex0 m0 m1 m2)"
proof -
  let ?data = "\<lparr>LifeTableInput.age_lower = [0, 1, 5], age_upper = [Some 1, Some 5, None],
      mx = [m0, m1, m2], ax = None, radix = default_radix\<rparr>"
  let ?q0 = "m0 / (1 + m0 / 2)"
  let ?q1 = "4 * m1 / (1 + 2 * m1)"
  let ?M = "max m2 (1 / 10 ^ 12)"
  let ?R = "default_radix"
  let ?l1 = "?R * (1 - ?q0)"
  let ?l2 = "?R * (1 - ?q0) * (1 - ?q1)"
  let ?L0 = "1 * (?R - ?R * ?q0) + 1 / 2 * (?R * ?q0)"
  let ?L1 = "4 * (?l1 - ?l1 * ?q1) + 2 * (?l1 * ?q1)"
  let ?L2 = "?l2 / ?M"
  let ?e0 = "(?L2 + ?L1 + ?L0) / ?R"
  have q: "qx_col [Some 1, Some 4, None] [m0, m1, m2] [1 / 2, 2, 1 / ?M] = [?q0, ?q1, 1]"
    using assms by (simp add: qx_col_def qx_value_def Let_def field_simps)
  have b: "\<exists>e1 e2. build_life_table ?data =
     Inr \<lparr>LifeTable.age_lower = LifeTableInput.age_lower ?data,
          age_upper = LifeTableInput.age_upper ?data, n = [Some 1, Some 4, None],
          mx = LifeTableInput.mx ?data, ax = [1 / 2, 2, 1 / ?M], qx = [?q0, ?q1, 1],
          px = [1 - ?q0, 1 - ?q1, 0],
          lx = [?R, ?l1, ?l2],
          dx = [?R * ?q0, ?l1 * ?q1, ?l2],
          Lx = [?L0, ?L1, ?L2],
          Tx = [?L2 + ?L1 + ?L0, ?L2 + ?L1, ?L2],
          ex = [if ?R \<noteq> 0 then ?e0 else 0, e1, e2]\<rparr>"
  proof (intro exI, rule build_life_table_eval)
    show "validate_inputs ?data = Inr ()" by (simp add: validate_inputs_def)
    show "\<not> list_ex (\<lambda>rate. rate < 0) (LifeTableInput.mx ?data)"
      using assms by simp
    show "(case LifeTableInput.ax ?data of Some ax_list \<Rightarrow> ax_list
          | None \<Rightarrow> compute_ax (LifeTableInput.age_lower ?data)
                      (LifeTableInput.age_upper ?data) (LifeTableInput.mx ?data)) =
          [1 / 2, 2, 1 / ?M]"
      by (simp add: compute_ax_def)
    show "n_col (LifeTableInput.age_lower ?data) (LifeTableInput.age_upper ?data) =
          [Some 1, Some 4, None]" by (simp add: n_col_def)
    show "qx_col [Some 1, Some 4, None] (LifeTableInput.mx ?data) [1 / 2, 2, 1 / ?M] =
          [?q0, ?q1, 1]"
      using q by simp
    show "map (\<lambda>value. 1 - value) [?q0, ?q1, 1] = [1 - ?q0, 1 - ?q1, 0]" by simp
    show "lx_loop [LifeTableInput.radix ?data] (butlast [1 - ?q0, 1 - ?q1, 0]) =
          [?R, ?l1, ?l2]" by simp
    show "map (\<lambda>(l, q). l * q) (zip [?R, ?l1, ?l2] [?q0, ?q1, 1]) =
          [?R * ?q0, ?l1 * ?q1, ?l2]" by simp
    show "Lx_col [Some 1, Some 4, None] [?R, ?l1, ?l2] [?R * ?q0, ?l1 * ?q1, ?l2]
            [1 / 2, 2, 1 / ?M] (LifeTableInput.mx ?data) = [?L0, ?L1, ?L2]"
      by (simp add: Lx_col_def Lx_value_def)
    show "Tx_col [?L0, ?L1, ?L2] = Inr [?L2 + ?L1 + ?L0, ?L2 + ?L1, ?L2]"
      by (rule Tx_col_three)
    show "ex_col [?L2 + ?L1 + ?L0, ?L2 + ?L1, ?L2] [?R, ?l1, ?l2] =
          [if ?R \<noteq> 0 then ?e0 else 0, if ?l1 \<noteq> 0 then (?L2 + ?L1) / ?l1 else 0,
           if ?l2 \<noteq> 0 then ?L2 / ?l2 else 0]"
      by (rule ex_col_three)
  qed
  have pos: "0 < 2 + m0" "0 < 1 + 2 * m1" using assms by simp_all
  have e1: "?e0 = (1 - ?q0 / 2) + (1 - ?q0) * ((4 - 2 * ?q1) + (1 - ?q1) / ?M)"
    by (rule radix_cancel_three) (simp add: default_radix_def)
  have e2: "1 - ?q0 / 2 = 2 / (2 + m0)"
    using pos by (simp add: field_simps)
  have e3: "1 - ?q0 = (2 - m0) / (2 + m0)"
    using pos by (simp add: field_simps)
  have e4: "4 - 2 * ?q1 = 4 / (1 + 2 * m1)"
    using pos by (simp add: field_simps)
  have e5: "1 - ?q1 = (1 - 2 * m1) / (1 + 2 * m1)"
    using pos by (simp add: field_simps)
  have "(1 - ?q0 / 2) + (1 - ?q0) * ((4 - 2 * ?q1) + (1 - ?q1) / ?M) =
      three_group_ex0 m0 m1 m2"
    by (simp only: e2 e3 e4 e5 three_group_ex0_def)
  with e1 have "?e0 = three_group_ex0 m0 m1 m2" by (rule trans)
  moreover have "?R \<noteq> 0" by (simp add: default_radix_def)
  ultimately have "(if ?R \<noteq> 0 then ?e0 else 0) = three_group_ex0 m0 m1 m2"
    by (simp only: if_True not_False_eq_True)
  with b show ?thesis by (auto simp: life_expectancy_from_mx_def)
qed

section \<open>The claims about the decomposition\<close>


lemma two_group_value:
  assumes "0 \<le> m0" and "m0 \<le> 2" and "0 \<le> m1"
  shows "defined_at (\<lambda>values. life_expectancy_from_mx values [0, 1] [Some 1, None] None) [m0, m1]"
    and "value_at (\<lambda>values. life_expectancy_from_mx values [0, 1] [Some 1, None] None) [m0, m1] =
           two_group_ex0 m0 m1"
  using life_expectancy_two_groups [OF assms] by (simp_all add: defined_at_def value_at_def)

lemma two_group_path_example:
  "path_defined (\<lambda>values. life_expectancy_from_mx values [0, 1] [Some 1, None] None)
     [1 / 10, 1 / 10] [3 / 10, 3 / 10] 1"
  by (simp add: path_defined_def mx_step_spec_def gradient_step_def two_group_value)

lemma two_group_contributions_example:
  "map (contribution_spec (\<lambda>values. life_expectancy_from_mx values [0, 1] [Some 1, None] None)
          [1 / 10, 1 / 10] [3 / 10, 3 / 10] 1) [0..<length [1 / 10, 1 / 10 :: real]] =
   [- 44000000000 / 48399999999, - 6000000000 / 1466666663]"
  by (simp add: contribution_spec_def gradient_spec_def mx_step_spec_def gradient_step_def
      two_group_value two_group_ex0_def)






text \<open>
  Claim C10. For rate vectors of the same length, \<open>horiuchi_decomposition\<close> with
  \<open>steps = 0\<close> does not raise: it returns a result whose contributions are all \<open>0\<close>,
  whatever the partition is.
\<close>

theorem horiuchi_decomposition_zero_steps:
  assumes "length baseline = length comparison"
  shows "horiuchi_decomposition baseline comparison al au axs 0 =
           Inr \<lparr>DecompositionResult.age_lower = al, age_upper = au,
                contribution = replicate (length baseline) 0\<rparr>"
  using assms
  by (simp add: horiuchi_decomposition_def Let_def map_replicate_const)

theorem horiuchi_decomposition_zero_steps_witness:
  "length [0, 2 :: real] = length [1, 3 :: real] \<and>
   horiuchi_decomposition [0, 2] [1, 3] [0, 1] [Some 1, None] None 0 =
     Inr \<lparr>DecompositionResult.age_lower = [0, 1], age_upper = [Some 1, None],
          contribution = [0, 0]\<rparr>"
  using horiuchi_decomposition_zero_steps [of "[0, 2]" "[1, 3]" "[0, 1]" "[Some 1, None]" None]
  by (simp add: numeral_2_eq_2)

section \<open>Alignment of two counties\<close>

lemma index_rows_distinct:
  "index_rows sf lc uc rows index = Inr index' \<Longrightarrow> distinct (map fst index) \<Longrightarrow>
     distinct (map fst index')"
  by (induction rows arbitrary: index) (auto simp: distinct_update split: sum.splits)

lemma py_sorted_Inr:
  assumes "py_sorted ks = Inr ks'"
  shows "ks' = sort ks"
  using assms by (simp add: py_sorted_def split: if_splits)

lemma sorted_map_fst:
  fixes ks :: "age_key list"
  shows "sorted ks \<Longrightarrow> sorted (map fst ks)"
  by (induction ks) (auto simp: less_eq_prod_def)

lemma common_keys_Inr:
  assumes "common_keys index_a index_b = Inr ks" and "distinct (map fst index_a)"
  shows "sorted ks" and "distinct ks" and "sorted (map fst ks)"
    and "set ks = set (map fst index_a) \<inter> set (map fst index_b)"
proof -
  from assms(1) have ks: "ks = sort (filter (\<lambda>k. k \<in> set (map fst index_b)) (map fst index_a))"
    unfolding common_keys_def by (rule py_sorted_Inr)
  show "sorted ks" by (simp add: ks)
  then show "sorted (map fst ks)" by (rule sorted_map_fst)
  show "distinct ks" using assms(2) by (simp add: ks)
  show "set ks = set (map fst index_a) \<inter> set (map fst index_b)"
    unfolding ks by auto
qed

lemma common_keys_disjoint:
  assumes "set (map fst index_a) \<inter> set (map fst index_b) = {}"
  shows "common_keys index_a index_b = Inr []"
proof -
  from assms have "filter (\<lambda>k. k \<in> set (map fst index_b)) (map fst index_a) = []"
    by (auto simp: filter_empty_conv)
  then show ?thesis by (simp add: common_keys_def py_sorted_def)
qed

lemma horiuchi_decomposition_partition:
  assumes "horiuchi_decomposition b c al au axs steps = Inr r"
  shows "DecompositionResult.age_lower r = al" and "DecompositionResult.age_upper r = au"
  using assms
  by (auto simp: horiuchi_decomposition_def Let_def split: if_splits sum.splits)

lemma to_records_Inr:
  assumes "to_records r = Inr recs"
  shows "map fst recs = DecompositionResult.age_lower r"
    and "map (fst \<circ> snd) recs =
           take (length (DecompositionResult.age_lower r)) (DecompositionResult.age_upper r)"
proof -
  from assms have o: "recs = map (\<lambda>i. (DecompositionResult.age_lower r ! i,
                           DecompositionResult.age_upper r ! i, contribution r ! i))
                  [0..<length (DecompositionResult.age_lower r)]"
    and l: "length (DecompositionResult.age_lower r) \<le> length (DecompositionResult.age_upper r)"
    by (auto simp: to_records_def split: if_splits)
  show "map fst recs = DecompositionResult.age_lower r"
    unfolding o by (intro nth_equalityI) auto
  show "map (fst \<circ> snd) recs =
           take (length (DecompositionResult.age_lower r)) (DecompositionResult.age_upper r)"
    unfolding o using l by (intro nth_equalityI) auto
qed

lemma output_row_age:
  "output_row ca cb rc sx g rec ''age_lower'' = Some (PyFloat (fst rec))"
  "output_row ca cb rc sx g rec ''age_upper'' =
     Some (case fst (snd rec) of None \<Rightarrow> PyNone | Some h \<Rightarrow> PyFloat h)"
  by (auto simp: output_row_def split: prod.splits)


lemma decompose_between_counties_Inr:
  assumes "decompose_between_counties str_float data county_col race_col sex_col age_lower_col
             age_upper_col mx_col county_a county_b race sex ax_col steps = Inr out"
  shows "\<exists>index_a index_b ks baseline comparison axs r recs.
     index_rows str_float age_lower_col age_upper_col
       (filter (\<lambda>r. row_get r county_col = PyStr county_a)
          (filter (\<lambda>r. row_get r race_col = PyStr race \<and> row_get r sex_col = PyStr sex) data))
       [] = Inr index_a \<and>
     index_rows str_float age_lower_col age_upper_col
       (filter (\<lambda>r. row_get r county_col = PyStr county_b)
          (filter (\<lambda>r. row_get r race_col = PyStr race \<and> row_get r sex_col = PyStr sex) data))
       [] = Inr index_b \<and>
     common_keys index_a index_b = Inr ks \<and> ks \<noteq> [] \<and>
     horiuchi_decomposition baseline comparison (map fst ks) (map snd ks) axs steps = Inr r \<and>
     to_records r = Inr recs \<and>
     out = map (output_row county_a county_b race sex (sum_list (contribution r))) recs"
  using assms unfolding decompose_between_counties_def Let_def
  by (simp split: if_splits sum.splits) blast

text \<open>
  Claim C7. \<open>decompose_between_counties\<close> fails with the \<open>ValueError\<close> "No rows found for
  the specified race/sex cohort" when no row matches the race and the sex; with the
  \<open>ValueError\<close> "Both counties must have data for the specified cohort" when the rows of
  either county are empty; and, once both indexes are built, with the \<open>ValueError\<close> "No
  overlapping age groups available for decomposition" when the two sets of keys
  \<open>(age_lower, age_upper)\<close> do not meet. An error is never accompanied by a result. Whenever
  rows are returned, they are those of the common keys, each once, in ascending order of
  the keys and so of \<open>age_lower\<close>.
\<close>

theorem decompose_between_counties_failures:
  fixes data :: "row list"
    and county_col race_col sex_col age_lower_col age_upper_col mx_col :: column
    and county_a county_b race sex :: string
    and ax_col :: "column option" and steps :: int and str_float :: "string \<Rightarrow> real option"
  defines "cohort \<equiv>
    filter (\<lambda>r. row_get r race_col = PyStr race \<and> row_get r sex_col = PyStr sex) data"
  defines "rows_a \<equiv> filter (\<lambda>r. row_get r county_col = PyStr county_a) cohort"
  defines "rows_b \<equiv> filter (\<lambda>r. row_get r county_col = PyStr county_b) cohort"
  defines "result \<equiv>
    decompose_between_counties str_float data county_col race_col sex_col age_lower_col
      age_upper_col mx_col county_a county_b race sex ax_col steps"
  shows "(cohort = [] \<longrightarrow> result = Inl (ValueError NoCohortRows)) \<and>
         (cohort \<noteq> [] \<and> (rows_a = [] \<or> rows_b = []) \<longrightarrow>
            result = Inl (ValueError BothCounties)) \<and>
         (\<forall>index_a index_b.
            cohort \<noteq> [] \<and> rows_a \<noteq> [] \<and> rows_b \<noteq> [] \<and>
            index_rows str_float age_lower_col age_upper_col rows_a [] = Inr index_a \<and>
            index_rows str_float age_lower_col age_upper_col rows_b [] = Inr index_b \<and>
            set (map fst index_a) \<inter> set (map fst index_b) = {} \<longrightarrow>
            result = Inl (ValueError NoOverlap)) \<and>
         (\<forall>out. result = Inr out \<longrightarrow>
            (\<exists>index_a index_b ks.
               index_rows str_float age_lower_col age_upper_col rows_a [] = Inr index_a \<and>
               index_rows str_float age_lower_col age_upper_col rows_b [] = Inr index_b \<and>
               set ks = set (map fst index_a) \<inter> set (map fst index_b) \<and>
               distinct ks \<and> sorted ks \<and> sorted (map fst ks) \<and>
               map (\<lambda>r. r ''age_lower'') out = map (\<lambda>k. Some (PyFloat (fst k))) ks \<and>
               map (\<lambda>r. r ''age_upper'') out =
                 map (\<lambda>k. Some (case snd k of None \<Rightarrow> PyNone | Some h \<Rightarrow> PyFloat h)) ks))"
proof (intro conjI allI impI)
  assume "cohort = []"
  then show "result = Inl (ValueError NoCohortRows)"
    unfolding result_def cohort_def decompose_between_counties_def by simp
next
  assume "cohort \<noteq> [] \<and> (rows_a = [] \<or> rows_b = [])"
  then show "result = Inl (ValueError BothCounties)"
    unfolding result_def rows_a_def rows_b_def cohort_def decompose_between_counties_def Let_def
    by auto
next
  fix index_a index_b
  assume a: "cohort \<noteq> [] \<and> rows_a \<noteq> [] \<and> rows_b \<noteq> [] \<and>
            index_rows str_float age_lower_col age_upper_col rows_a [] = Inr index_a \<and>
            index_rows str_float age_lower_col age_upper_col rows_b [] = Inr index_b \<and>
            set (map fst index_a) \<inter> set (map fst index_b) = {}"
  then have "common_keys index_a index_b = Inr []"
    by (intro common_keys_disjoint) simp
  with a show "result = Inl (ValueError NoOverlap)"
    unfolding result_def rows_a_def rows_b_def cohort_def decompose_between_counties_def Let_def
    by simp
next
  fix out
  assume "result = Inr out"
  from decompose_between_counties_Inr [OF this [unfolded result_def]]
  obtain index_a index_b ks baseline comparison axs r recs where
    ia: "index_rows str_float age_lower_col age_upper_col rows_a [] = Inr index_a" and
    ib: "index_rows str_float age_lower_col age_upper_col rows_b [] = Inr index_b" and
    ks: "common_keys index_a index_b = Inr ks" and
    h: "horiuchi_decomposition baseline comparison (map fst ks) (map snd ks) axs steps = Inr r" and
    t: "to_records r = Inr recs" and
    out: "out = map (output_row county_a county_b race sex (sum_list (contribution r))) recs"
    unfolding rows_a_def rows_b_def cohort_def by blast
  have d: "distinct (map fst index_a)"
    using index_rows_distinct [OF ia] by simp
  note c = common_keys_Inr [OF ks d]
  note p = horiuchi_decomposition_partition [OF h]
  note tr = to_records_Inr [OF t, unfolded p]
  have lo: "map (\<lambda>r. r ''age_lower'') out = map (\<lambda>k. Some (PyFloat (fst k))) ks"
  proof -
    have "map (\<lambda>r. r ''age_lower'') out = map (\<lambda>x. Some (PyFloat x)) (map fst recs)"
      unfolding out by (simp add: output_row_age comp_def)
    then show ?thesis unfolding tr(1) by (simp add: comp_def)
  qed
  have hi: "map (\<lambda>r. r ''age_upper'') out =
      map (\<lambda>k. Some (case snd k of None \<Rightarrow> PyNone | Some h \<Rightarrow> PyFloat h)) ks"
  proof -
    have "map (\<lambda>r. r ''age_upper'') out =
        map (\<lambda>x. Some (case x of None \<Rightarrow> PyNone | Some h \<Rightarrow> PyFloat h)) (map (fst \<circ> snd) recs)"
      unfolding out by (simp add: output_row_age comp_def)
    then show ?thesis unfolding tr(2) by (simp add: comp_def)
  qed
  show "\<exists>index_a index_b ks.
               index_rows str_float age_lower_col age_upper_col rows_a [] = Inr index_a \<and>
               index_rows str_float age_lower_col age_upper_col rows_b [] = Inr index_b \<and>
               set ks = set (map fst index_a) \<inter> set (map fst index_b) \<and>
               distinct ks \<and> sorted ks \<and> sorted (map fst ks) \<and>
               map (\<lambda>r. r ''age_lower'') out = map (\<lambda>k. Some (PyFloat (fst k))) ks \<and>
               map (\<lambda>r. r ''age_upper'') out =
                 map (\<lambda>k. Some (case snd k of None \<Rightarrow> PyNone | Some h \<Rightarrow> PyFloat h)) ks"
    using ia ib c lo hi by blast
qed


lemma horiuchi_two_group_example:
  "horiuchi_decomposition [1 / 10, 1 / 10] [3 / 10, 3 / 10] [0, 1] [Some 1, None] None 1 =
     Inr \<lparr>DecompositionResult.age_lower = [0, 1], age_upper = [Some 1, None],
          contribution = [- 44000000000 / 48399999999, - 6000000000 / 1466666663]\<rparr>"
  using horiuchi_decomposition_ok [OF _ two_group_path_example]
  unfolding two_group_contributions_example by simp

lemma row_get_county_record:
  "row_get (county_record c low high rate) ''county'' = PyStr c"
  "row_get (county_record c low high rate) ''race'' = PyStr ''White''"
  "row_get (county_record c low high rate) ''sex'' = PyStr ''Female''"
  by (simp_all add: row_get_def county_record_def)

lemma row_getitem_county_record:
  "row_getitem (county_record c low high rate) ''age_lower'' = Inr (PyFloat low)"
  "row_getitem (county_record c low high rate) ''age_upper'' =
     Inr (case high of None \<Rightarrow> PyNone | Some h \<Rightarrow> PyFloat h)"
  "row_getitem (county_record c low high rate) ''mx'' = Inr (PyFloat rate)"
  by (simp_all add: row_getitem_def county_record_def)

lemma key_county_record:
  "key sf (PyFloat low) (case high of None \<Rightarrow> PyNone | Some h \<Rightarrow> PyFloat h) = Inr (low, high)"
  by (simp add: key_def py_float_def split: option.splits)

lemma index_rows_county_record:
  "index_rows sf ''age_lower'' ''age_upper'' (county_record c low high rate # rows) index =
     index_rows sf ''age_lower'' ''age_upper'' rows
       (AList.update (low, high) (county_record c low high rate) index)"
  by (simp add: row_getitem_county_record key_county_record)

lemma example_call_succeeds:
  "example_call example_records ''B'' ''White'' 1 = Inr example_output"
  unfolding example_call_def decompose_between_counties_def example_records_def
  by (simp add: row_get_county_record key_def common_keys_def py_sorted_def
      comparable_def row_getitem_county_record py_float_def ax_values_def
      horiuchi_two_group_example to_records_def example_output_def Let_def
      less_eq_prod_def less_prod_def)


lemma disjoint_index_a:
  "index_rows (\<lambda>_. None) ''age_lower'' ''age_upper''
     [county_record ''A'' 0 (Some 1) (1 / 10), county_record ''A'' 1 None (1 / 10)] [] =
   Inr [((0, Some 1), county_record ''A'' 0 (Some 1) (1 / 10)),
        ((1, None), county_record ''A'' 1 None (1 / 10))]"
  by (simp add: row_getitem_county_record key_def py_float_def)

lemma disjoint_index_b:
  "index_rows (\<lambda>_. None) ''age_lower'' ''age_upper''
     [county_record ''B'' 0 (Some 5) (3 / 10), county_record ''B'' 5 None (3 / 10)] [] =
   Inr [((0, Some 5), county_record ''B'' 0 (Some 5) (3 / 10)),
        ((5, None), county_record ''B'' 5 None (3 / 10))]"
  by (simp add: row_getitem_county_record key_def py_float_def)

theorem decompose_between_counties_failures_witness:
  "filter (\<lambda>r. row_get r ''race'' = PyStr ''Black'' \<and> row_get r ''sex'' = PyStr ''Female'')
     example_records = [] \<and>
   example_call example_records ''B'' ''Black'' 1 = Inl (ValueError NoCohortRows) \<and>
   filter (\<lambda>r. row_get r ''county'' = PyStr ''C'')
     (filter (\<lambda>r. row_get r ''race'' = PyStr ''White'' \<and> row_get r ''sex'' = PyStr ''Female'')
        example_records) = [] \<and>
   example_call example_records ''C'' ''White'' 1 = Inl (ValueError BothCounties) \<and>
   example_call disjoint_records ''B'' ''White'' 1 = Inl (ValueError NoOverlap) \<and>
   example_call example_records ''B'' ''White'' 1 = Inr example_output \<and>
   (\<exists>ks :: age_key list. sorted ks \<and> sorted (map fst ks) \<and>
      map (\<lambda>r. r ''age_lower'') example_output = map (\<lambda>k. Some (PyFloat (fst k))) ks)"
proof -
  note T = decompose_between_counties_failures [where str_float = "\<lambda>_. None"
      and county_col = "''county''" and race_col = "''race''" and sex_col = "''sex''"
      and age_lower_col = "''age_lower''" and age_upper_col = "''age_upper''"
      and mx_col = "''mx''" and county_a = "''A''" and sex = "''Female''" and ax_col = None
      and steps = 1, folded example_call_def]
  have c1: "filter (\<lambda>r. row_get r ''race'' = PyStr ''Black'' \<and> row_get r ''sex'' = PyStr ''Female'')
     example_records = []"
    by (simp add: example_records_def row_get_county_record)
  have c2: "filter (\<lambda>r. row_get r ''race'' = PyStr ''White'' \<and> row_get r ''sex'' = PyStr ''Female'')
     example_records = example_records"
    by (simp add: example_records_def row_get_county_record)
  have c3: "filter (\<lambda>r. row_get r ''county'' = PyStr ''C'') example_records = []"
    by (simp add: example_records_def row_get_county_record)
  have c4: "example_records \<noteq> []" by (simp add: example_records_def)
  have d1: "filter (\<lambda>r. row_get r ''race'' = PyStr ''White'' \<and> row_get r ''sex'' = PyStr ''Female'')
     disjoint_records = disjoint_records"
    by (simp add: disjoint_records_def row_get_county_record)
  have d2: "filter (\<lambda>r. row_get r ''county'' = PyStr ''A'') disjoint_records =
      [county_record ''A'' 0 (Some 1) (1 / 10), county_record ''A'' 1 None (1 / 10)]"
    "filter (\<lambda>r. row_get r ''county'' = PyStr ''B'') disjoint_records =
      [county_record ''B'' 0 (Some 5) (3 / 10), county_record ''B'' 5 None (3 / 10)]"
    by (simp_all add: disjoint_records_def row_get_county_record)
  have d3: "disjoint_records \<noteq> []" by (simp add: disjoint_records_def)
  have w1: "example_call example_records ''B'' ''Black'' 1 = Inl (ValueError NoCohortRows)"
    using T [where data = example_records and county_b = "''B''" and race = "''Black''"] c1
    by blast
  have w2: "example_call example_records ''C'' ''White'' 1 = Inl (ValueError BothCounties)"
    using T [where data = example_records and county_b = "''C''" and race = "''White''"] c4
    unfolding c2 c3 by blast
  have w3: "example_call disjoint_records ''B'' ''White'' 1 = Inl (ValueError NoOverlap)"
  proof -
    have "set (map fst [((0::real, Some (1::real)), county_record ''A'' 0 (Some 1) (1 / 10)),
        ((1, None), county_record ''A'' 1 None (1 / 10))]) \<inter>
      set (map fst [((0, Some 5), county_record ''B'' 0 (Some 5) (3 / 10)),
        ((5, None), county_record ''B'' 5 None (3 / 10))]) = {}"
      by simp
    with T [where data = disjoint_records and county_b = "''B''" and race = "''White''",
        unfolded d1 d2] d3 disjoint_index_a disjoint_index_b
    show ?thesis by blast
  qed
  have w4: "\<exists>ks :: age_key list. sorted ks \<and> sorted (map fst ks) \<and>
      map (\<lambda>r. r ''age_lower'') example_output = map (\<lambda>k. Some (PyFloat (fst k))) ks"
  proof -
    from T [where data = example_records and county_b = "''B''" and race = "''White''",
        THEN conjunct2, THEN conjunct2, THEN conjunct2, rule_format, OF example_call_succeeds]
    obtain ks :: "age_key list" where "sorted ks" "sorted (map fst ks)"
      "map (\<lambda>r. r ''age_lower'') example_output = map (\<lambda>k. Some (PyFloat (fst k))) ks"
      by blast
    then show ?thesis by blast
  qed
  from c1 w1 c2 c3 w2 w3 w4 example_call_succeeds show ?thesis by simp
qed

section \<open>The sum of the contributions and the direct difference\<close>

lemma sum_list_swap:
  fixes t :: "'a \<Rightarrow> 'b \<Rightarrow> real"
  shows "sum_list (map (\<lambda>i. sum_list (map (\<lambda>j. t i j) js)) is) =
         sum_list (map (\<lambda>j. sum_list (map (\<lambda>i. t i j) is)) js)"
  by (induction "is") (simp_all add: sum_list_addf)

lemma sum_list_telescope:
  fixes F :: "nat \<Rightarrow> real"
  shows "sum_list (map (\<lambda>j. F (Suc j) - F j) [0..<k]) = F k - F 0"
  by (induction k) simp_all

lemma sum_list_abs_bound:
  fixes g :: "'a \<Rightarrow> real"
  assumes "\<forall>x \<in> set xs. \<bar>g x\<bar> \<le> B"
  shows "\<bar>sum_list (map g xs)\<bar> \<le> real (length xs) * B"
  using assms
proof (induction xs)
  case Nil
  then show ?case by simp
next
  case (Cons x xs)
  then have "\<bar>g x\<bar> \<le> B" and "\<bar>sum_list (map g xs)\<bar> \<le> real (length xs) * B" by simp_all
  then show ?case by (simp add: algebra_simps)
qed

lemma sum_list_first_term:
  fixes g :: "'a \<Rightarrow> real"
  assumes "\<forall>y \<in> set xs. 0 \<le> g y"
  shows "g x \<le> sum_list (map g (x # xs))"
proof -
  have "0 \<le> sum_list (map g xs)"
    using assms by (intro sum_list_nonneg) auto
  then show ?thesis by simp
qed

lemma horiuchi_total:
  assumes len: "length baseline = length comparison"
    and ok: "path_defined (\<lambda>values. life_expectancy_from_mx values al au axs)
               baseline comparison steps"
  shows "\<exists>r. horiuchi_decomposition baseline comparison al au axs steps = Inr r \<and>
     sum_list (contribution r) =
       sum_list (map (segment_term (\<lambda>values. life_expectancy_from_mx values al au axs)
                        baseline comparison steps) [0..<nat steps])"
proof -
  let ?func = "\<lambda>values. life_expectancy_from_mx values al au axs"
  have "sum_list (map (contribution_spec ?func baseline comparison steps) [0..<length baseline]) =
      sum_list (map (segment_term ?func baseline comparison steps) [0..<nat steps])"
    unfolding contribution_spec_def segment_term_def by (rule sum_list_swap)
  then show ?thesis
    using horiuchi_decomposition_ok [OF len ok] by simp
qed

lemma path_point_ends:
  "path_point baseline comparison 0 = baseline"
  "length baseline = length comparison \<Longrightarrow> path_point baseline comparison 1 = comparison"
  unfolding path_point_def by (auto intro!: nth_equalityI)

lemma approximation_error_segments:
  assumes len: "length baseline = length comparison"
    and ok: "path_defined (\<lambda>values. life_expectancy_from_mx values al au axs)
               baseline comparison steps"
    and a: "life_expectancy_from_mx baseline al au axs = Inr e_a"
    and b: "life_expectancy_from_mx comparison al au axs = Inr e_b"
    and steps: "0 < steps"
  shows "approximation_error baseline comparison al au axs steps =
     Inr \<bar>sum_list (map (\<lambda>j.
              segment_term (\<lambda>values. life_expectancy_from_mx values al au axs)
                baseline comparison steps j -
              segment_change (\<lambda>values. life_expectancy_from_mx values al au axs)
                baseline comparison steps j) [0..<nat steps])\<bar>"
proof -
  let ?func = "\<lambda>values. life_expectancy_from_mx values al au axs"
  let ?F = "\<lambda>j. value_at ?func (path_point baseline comparison (real j / real_of_int steps))"
  obtain r where r: "horiuchi_decomposition baseline comparison al au axs steps = Inr r"
    and s: "sum_list (contribution r) =
       sum_list (map (segment_term ?func baseline comparison steps) [0..<nat steps])"
    using horiuchi_total [OF len ok] by blast
  have p0: "?F 0 = e_a"
    using a by (simp add: path_point_ends value_at_def)
  have "real (nat steps) / real_of_int steps = 1" using steps by simp
  then have p1: "?F (nat steps) = e_b"
    using b len by (simp only: path_point_ends value_at_def sum.case)
  have "sum_list (map (segment_change ?func baseline comparison steps) [0..<nat steps]) =
      ?F (nat steps) - ?F 0"
    unfolding segment_change_def by (rule sum_list_telescope)
  also have "\<dots> = e_b - e_a"
    by (simp only: p0 p1)
  finally have t: "sum_list (map (segment_change ?func baseline comparison steps) [0..<nat steps]) =
      e_b - e_a" .
  have "sum_list (map (\<lambda>j. segment_term ?func baseline comparison steps j -
              segment_change ?func baseline comparison steps j) [0..<nat steps]) =
      sum_list (contribution r) - (e_b - e_a)"
    unfolding s t [symmetric] by (simp add: sum_list_subtractf)
  then show ?thesis
    using r a b by (simp add: approximation_error_def direct_difference_def)
qed

subsection \<open>The example of the specification, segment by segment\<close>

lemma three_group_value:
  assumes "0 \<le> m0" and "m0 \<le> 2" and "0 \<le> m1" and "m1 \<le> 1 / 2" and "0 \<le> m2"
  shows "defined_at (\<lambda>values. life_expectancy_from_mx values [0, 1, 5] [Some 1, Some 5, None] None)
           [m0, m1, m2]"
    and "value_at (\<lambda>values. life_expectancy_from_mx values [0, 1, 5] [Some 1, Some 5, None] None)
           [m0, m1, m2] = three_group_ex0 m0 m1 m2"
  using life_expectancy_three_groups [OF assms] by (simp_all add: defined_at_def value_at_def)

lemmas gap_defs =
  segment_term_def segment_change_def gradient_spec_def mx_step_spec_def path_point_def
  gradient_step_def

lemma list_all_upt: "list_all P [a..<b] \<longleftrightarrow> (\<forall>j. a \<le> j \<and> j < b \<longrightarrow> P j)"
  by (auto simp: list_all_iff)

lemma example_gap_0:
  "list_all (\<lambda>j. \<bar>example_gap j\<bar> \<le> 1 / 10 ^ 6) [0..<5]"
  by (simp add: upt_rec example_gap_def gap_defs example_baseline_def example_comparison_def
      three_group_value three_group_ex0_def)

lemma example_gap_1:
  "list_all (\<lambda>j. \<bar>example_gap j\<bar> \<le> 1 / 10 ^ 6) [5..<10]"
  by (simp add: upt_rec example_gap_def gap_defs example_baseline_def example_comparison_def
      three_group_value three_group_ex0_def)

lemma example_gap_2:
  "list_all (\<lambda>j. \<bar>example_gap j\<bar> \<le> 1 / 10 ^ 6) [10..<15]"
  by (simp add: upt_rec example_gap_def gap_defs example_baseline_def example_comparison_def
      three_group_value three_group_ex0_def)

lemma example_gap_3:
  "list_all (\<lambda>j. \<bar>example_gap j\<bar> \<le> 1 / 10 ^ 6) [15..<20]"
  by (simp add: upt_rec example_gap_def gap_defs example_baseline_def example_comparison_def
      three_group_value three_group_ex0_def)

lemma example_gap_4:
  "list_all (\<lambda>j. \<bar>example_gap j\<bar> \<le> 1 / 10 ^ 6) [20..<25]"
  by (simp add: upt_rec example_gap_def gap_defs example_baseline_def example_comparison_def
      three_group_value three_group_ex0_def)

lemma example_gap_5:
  "list_all (\<lambda>j. \<bar>example_gap j\<bar> \<le> 1 / 10 ^ 6) [25..<30]"
  by (simp add: upt_rec example_gap_def gap_defs example_baseline_def example_comparison_def
      three_group_value three_group_ex0_def)

lemma example_gap_6:
  "list_all (\<lambda>j. \<bar>example_gap j\<bar> \<le> 1 / 10 ^ 6) [30..<35]"
  by (simp add: upt_rec example_gap_def gap_defs example_baseline_def example_comparison_def
      three_group_value three_group_ex0_def)

lemma example_gap_7:
  "list_all (\<lambda>j. \<bar>example_gap j\<bar> \<le> 1 / 10 ^ 6) [35..<40]"
  by (simp add: upt_rec example_gap_def gap_defs example_baseline_def example_comparison_def
      three_group_value three_group_ex0_def)

lemma example_gap_8:
  "list_all (\<lambda>j. \<bar>example_gap j\<bar> \<le> 1 / 10 ^ 6) [40..<45]"
  by (simp add: upt_rec example_gap_def gap_defs example_baseline_def example_comparison_def
      three_group_value three_group_ex0_def)

lemma example_gap_9:
  "list_all (\<lambda>j. \<bar>example_gap j\<bar> \<le> 1 / 10 ^ 6) [45..<50]"
  by (simp add: upt_rec example_gap_def gap_defs example_baseline_def example_comparison_def
      three_group_value three_group_ex0_def)

lemma example_gap_bound:
  assumes "j < 50"
  shows "\<bar>example_gap j\<bar> \<le> 1 / 10 ^ 6"
proof -
  consider "j < 5" | "5 \<le> j \<and> j < 10" | "10 \<le> j \<and> j < 15" | "15 \<le> j \<and> j < 20"
    | "20 \<le> j \<and> j < 25" | "25 \<le> j \<and> j < 30" | "30 \<le> j \<and> j < 35" | "35 \<le> j \<and> j < 40"
    | "40 \<le> j \<and> j < 45" | "45 \<le> j \<and> j < 50"
    using assms by linarith
  then show ?thesis
  proof cases
    case 1
    then show ?thesis using example_gap_0 [unfolded list_all_upt] by simp
  next
    case 2
    then show ?thesis using example_gap_1 [unfolded list_all_upt] by simp
  next
    case 3
    then show ?thesis using example_gap_2 [unfolded list_all_upt] by simp
  next
    case 4
    then show ?thesis using example_gap_3 [unfolded list_all_upt] by simp
  next
    case 5
    then show ?thesis using example_gap_4 [unfolded list_all_upt] by simp
  next
    case 6
    then show ?thesis using example_gap_5 [unfolded list_all_upt] by simp
  next
    case 7
    then show ?thesis using example_gap_6 [unfolded list_all_upt] by simp
  next
    case 8
    then show ?thesis using example_gap_7 [unfolded list_all_upt] by simp
  next
    case 9
    then show ?thesis using example_gap_8 [unfolded list_all_upt] by simp
  next
    case 10
    then show ?thesis using example_gap_9 [unfolded list_all_upt] by simp
  qed
qed

lemma upt_3: "[0..<3] = [0, 1, 2]"
  by (simp add: upt_rec)

lemma example_mx_step:
  "mx_step_spec example_baseline example_comparison 50 j =
     [5 / 1000 + (real j + 1 / 2) / 50 * (1 / 1000),
      8 / 10000 + (real j + 1 / 2) / 50 * (2 / 10000),
      2 / 100 + (real j + 1 / 2) / 50 * (- 2 / 1000)]"
  by (simp add: mx_step_spec_def example_baseline_def example_comparison_def upt_3)

lemma example_path_defined:
  "path_defined (\<lambda>values. life_expectancy_from_mx values [0, 1, 5] [Some 1, Some 5, None] None)
     example_baseline example_comparison 50"
  unfolding path_defined_iff
proof (intro ballI allI impI)
  fix j i
  assume "j \<in> set [0..<nat 50]" and "i < length example_baseline"
  then have j: "real j < 50" "0 \<le> real j" and i: "i = 0 \<or> i = 1 \<or> i = 2"
    by (auto simp: example_baseline_def)
  define w where "w = (real j + 1 / 2) / 50"
  have w: "0 \<le> w" "w \<le> 1" using j by (simp_all add: w_def)
  have m: "mx_step_spec example_baseline example_comparison 50 j =
     [5 / 1000 + w * (1 / 1000), 8 / 10000 + w * (2 / 10000), 2 / 100 + w * (- 2 / 1000)]"
    unfolding w_def by (rule example_mx_step)
  show "defined_at (\<lambda>values. life_expectancy_from_mx values [0, 1, 5] [Some 1, Some 5, None] None)
          ((mx_step_spec example_baseline example_comparison 50 j)
             [i := mx_step_spec example_baseline example_comparison 50 j ! i + gradient_step]) \<and>
        defined_at (\<lambda>values. life_expectancy_from_mx values [0, 1, 5] [Some 1, Some 5, None] None)
          ((mx_step_spec example_baseline example_comparison 50 j)
             [i := mx_step_spec example_baseline example_comparison 50 j ! i - gradient_step])"
    unfolding m using i w
    by (auto simp: gradient_step_def intro!: three_group_value(1))
qed

lemma example_direct:
  "life_expectancy_from_mx example_baseline [0, 1, 5] [Some 1, Some 5, None] None =
     Inr (three_group_ex0 (5 / 1000) (8 / 10000) (2 / 100))"
  "life_expectancy_from_mx example_comparison [0, 1, 5] [Some 1, Some 5, None] None =
     Inr (three_group_ex0 (6 / 1000) (1 / 1000) (18 / 1000))"
  unfolding example_baseline_def example_comparison_def
  by (rule life_expectancy_three_groups; simp)+

text \<open>
  Claim C9, amended. For the example of the specification (the partition
  \<open>[0,1), [1,5), [5,\<infinity>)\<close>, baseline rates \<open>[0.005, 0.0008, 0.02]\<close>, comparison rates
  \<open>[0.006, 0.001, 0.018]\<close>), \<open>horiuchi_decomposition\<close> at \<open>steps = 50\<close> returns, and the
  sum of its contributions differs from \<open>ex_comparison[0] - ex_baseline[0]\<close> by at most
  \<open>1e-3\<close>. Each of the fifty passes adds what \<open>ex[0]\<close> changes over its segment of the path,
  up to \<open>1e-6\<close>.
\<close>

theorem example_within_tolerance:
  "\<not> isl (approximation_error example_baseline example_comparison [0, 1, 5]
            [Some 1, Some 5, None] None 50) \<and>
   projr (approximation_error example_baseline example_comparison [0, 1, 5]
            [Some 1, Some 5, None] None 50) \<le> 1 / 1000"
proof -
  have len: "length example_baseline = length example_comparison"
    by (simp add: example_baseline_def example_comparison_def)
  have e: "approximation_error example_baseline example_comparison [0, 1, 5]
            [Some 1, Some 5, None] None 50 =
      Inr \<bar>sum_list (map example_gap [0..<nat 50])\<bar>"
    using approximation_error_segments [OF len example_path_defined example_direct]
    by (simp add: example_gap_def [abs_def])
  have "\<bar>sum_list (map example_gap [0..<nat 50])\<bar> \<le> real (length [0..<nat 50]) * (1 / 10 ^ 6)"
    by (rule sum_list_abs_bound) (use example_gap_bound in auto)
  also have "\<dots> \<le> 1 / 1000" by simp
  finally show ?thesis unfolding e by simp
qed

subsection \<open>Two rate vectors for which the sum misses the difference\<close>

lemma rates_mx_step:
  "mx_step_spec low_rates high_rates 50 j =
     [1 / 100 + (real j + 1 / 2) / 50 * 0, 1 / 100 + (real j + 1 / 2) / 50 * (4 / 100)]"
  by (simp add: mx_step_spec_def low_rates_def high_rates_def)

lemma rates_path_defined:
  "path_defined (\<lambda>values. life_expectancy_from_mx values [0, 1] [Some 1, None] None)
     low_rates high_rates 50"
  unfolding path_defined_iff
proof (intro ballI allI impI)
  fix j i
  assume "j \<in> set [0..<nat 50]" and "i < length low_rates"
  then have j: "real j < 50" "0 \<le> real j" and i: "i = 0 \<or> i = 1"
    by (auto simp: low_rates_def)
  define w where "w = (real j + 1 / 2) / 50"
  have w: "0 \<le> w" "w \<le> 1" using j by (simp_all add: w_def)
  have m: "mx_step_spec low_rates high_rates 50 j =
     [1 / 100 + w * 0, 1 / 100 + w * (4 / 100)]"
    unfolding w_def by (rule rates_mx_step)
  show "defined_at (\<lambda>values. life_expectancy_from_mx values [0, 1] [Some 1, None] None)
          ((mx_step_spec low_rates high_rates 50 j)
             [i := mx_step_spec low_rates high_rates 50 j ! i + gradient_step]) \<and>
        defined_at (\<lambda>values. life_expectancy_from_mx values [0, 1] [Some 1, None] None)
          ((mx_step_spec low_rates high_rates 50 j)
             [i := mx_step_spec low_rates high_rates 50 j ! i - gradient_step])"
    unfolding m using i w
    by (auto simp: gradient_step_def intro!: two_group_value(1))
qed

lemma rates_direct:
  "life_expectancy_from_mx low_rates [0, 1] [Some 1, None] None =
     Inr (two_group_ex0 (1 / 100) (1 / 100))"
  "life_expectancy_from_mx high_rates [0, 1] [Some 1, None] None =
     Inr (two_group_ex0 (1 / 100) (5 / 100))"
  unfolding low_rates_def high_rates_def
  by (rule life_expectancy_two_groups; simp)+

lemma rates_gap_first: "1 / 100 < rates_gap 0"
  by (simp add: rates_gap_def gap_defs low_rates_def high_rates_def
      two_group_value two_group_ex0_def)

lemma rates_gap_0:
  "list_all (\<lambda>j. 0 \<le> rates_gap j) [0..<10]"
  by (simp add: upt_rec rates_gap_def gap_defs low_rates_def high_rates_def
      two_group_value two_group_ex0_def)

lemma rates_gap_1:
  "list_all (\<lambda>j. 0 \<le> rates_gap j) [10..<20]"
  by (simp add: upt_rec rates_gap_def gap_defs low_rates_def high_rates_def
      two_group_value two_group_ex0_def)

lemma rates_gap_2:
  "list_all (\<lambda>j. 0 \<le> rates_gap j) [20..<30]"
  by (simp add: upt_rec rates_gap_def gap_defs low_rates_def high_rates_def
      two_group_value two_group_ex0_def)

lemma rates_gap_3:
  "list_all (\<lambda>j. 0 \<le> rates_gap j) [30..<40]"
  by (simp add: upt_rec rates_gap_def gap_defs low_rates_def high_rates_def
      two_group_value two_group_ex0_def)

lemma rates_gap_4:
  "list_all (\<lambda>j. 0 \<le> rates_gap j) [40..<50]"
  by (simp add: upt_rec rates_gap_def gap_defs low_rates_def high_rates_def
      two_group_value two_group_ex0_def)

lemma rates_gap_nonneg:
  assumes "j < 50"
  shows "0 \<le> rates_gap j"
proof -
  consider "j < 10" | "10 \<le> j \<and> j < 20" | "20 \<le> j \<and> j < 30" | "30 \<le> j \<and> j < 40"
    | "40 \<le> j \<and> j < 50"
    using assms by linarith
  then show ?thesis
  proof cases
    case 1
    then show ?thesis using rates_gap_0 [unfolded list_all_upt] by simp
  next
    case 2
    then show ?thesis using rates_gap_1 [unfolded list_all_upt] by simp
  next
    case 3
    then show ?thesis using rates_gap_2 [unfolded list_all_upt] by simp
  next
    case 4
    then show ?thesis using rates_gap_3 [unfolded list_all_upt] by simp
  next
    case 5
    then show ?thesis using rates_gap_4 [unfolded list_all_upt] by simp
  qed
qed

text \<open>
  On the partition \<open>[0,1), [1,\<infinity>)\<close> with rates \<open>[0.01, 0.01]\<close> and \<open>[0.01, 0.05]\<close>,
  \<open>horiuchi_decomposition\<close> at \<open>steps = 50\<close> returns and the sum of its contributions is
  more than \<open>1e-3\<close> away from the direct difference: no pass adds less than \<open>ex[0]\<close>
  changes over its segment, and the first pass alone adds \<open>0.01\<close> more.
\<close>

theorem sum_misses_direct_difference:
  "\<not> isl (approximation_error low_rates high_rates [0, 1] [Some 1, None] None 50) \<and>
   1 / 1000 < projr (approximation_error low_rates high_rates [0, 1] [Some 1, None] None 50)"
proof -
  have len: "length low_rates = length high_rates"
    by (simp add: low_rates_def high_rates_def)
  have e: "approximation_error low_rates high_rates [0, 1] [Some 1, None] None 50 =
      Inr \<bar>sum_list (map rates_gap [0..<nat 50])\<bar>"
    using approximation_error_segments [OF len rates_path_defined rates_direct]
    by (simp add: rates_gap_def [abs_def])
  have u: "[0..<nat 50] = 0 # [1..<50]" by (simp add: upt_conv_Cons)
  have "rates_gap 0 \<le> sum_list (map rates_gap (0 # [1..<50]))"
    by (rule sum_list_first_term) (use rates_gap_nonneg in auto)
  with rates_gap_first have "1 / 100 < sum_list (map rates_gap [0..<nat 50])"
    unfolding u by linarith
  then have "1 / 1000 < \<bar>sum_list (map rates_gap [0..<nat 50])\<bar>" by linarith
  then show ?thesis unfolding e by simp
qed

end
